theory Spec2Isabelle
  imports Complex_Main
begin

unbundle bit_operations_syntax

section \<open>Numeric conventions\<close>

text \<open>
  The simulator computes with IEEE double-precision numbers. The development idealises
  them as the real numbers: \<open>+\<close>, \<open>*\<close>, \<open>/\<close>, \<open>exp\<close>, \<open>sqrt\<close> and \<open>**\<close> are the exact
  operations, there is no NaN and no infinity, and a division by zero (which numpy
  answers with \<open>inf\<close> or \<open>nan\<close>) has the HOL value \<open>0\<close>. Python's unbounded integers
  are \<open>int\<close>.
\<close>

definition np_clip :: "real \<Rightarrow> real \<Rightarrow> real \<Rightarrow> real" where
  "np_clip x lo hi = min (max x lo) hi"

text \<open>
  \<open>np.interp(x, xp, fp)\<close> on increasing sample points, given here as the list of
  pairs \<open>(xp[j], fp[j])\<close>: the first value left of the table, the last value right of
  it, and the chord between the two neighbouring points inside.
\<close>

fun np_interp :: "real \<Rightarrow> (real \<times> real) list \<Rightarrow> real" where
  "np_interp x [] = 0"
| "np_interp x [(x0, y0)] = y0"
| "np_interp x ((x0, y0) # (x1, y1) # rest) =
     (if x \<le> x0 then y0
      else if x < x1 then (y1 - y0) / (x1 - x0) * (x - x0) + y0
      else np_interp x ((x1, y1) # rest))"

section \<open>Cell model (plant/cell\_model.py)\<close>

subsection \<open>Class constants\<close>

text \<open>The two OCV tables: rows \<open>[SOC%, OCV(V)]\<close>, 101 points each.\<close>

definition OCV_SOC_TABLE_DISCHARGE :: "(real \<times> real) list" where
  "OCV_SOC_TABLE_DISCHARGE =
  [
   (0, 2.862), (1, 2.912), (2, 2.962), (3, 3.012), (4, 3.062), (5, 3.112),
   (6, 3.124), (7, 3.136), (8, 3.148), (9, 3.160), (10, 3.172), (11, 3.183),
   (12, 3.193), (13, 3.204), (14, 3.215), (15, 3.226), (16, 3.236), (17, 3.247),
   (18, 3.258), (19, 3.268), (20, 3.279), (21, 3.280), (22, 3.280), (23, 3.281),
   (24, 3.281), (25, 3.282), (26, 3.283), (27, 3.283), (28, 3.284), (29, 3.284),
   (30, 3.285), (31, 3.286), (32, 3.286), (33, 3.287), (34, 3.287), (35, 3.288),
   (36, 3.289), (37, 3.289), (38, 3.290), (39, 3.290), (40, 3.291), (41, 3.292),
   (42, 3.292), (43, 3.293), (44, 3.293), (45, 3.294), (46, 3.295), (47, 3.295),
   (48, 3.296), (49, 3.296), (50, 3.297), (51, 3.298), (52, 3.298), (53, 3.299),
   (54, 3.299), (55, 3.300), (56, 3.300), (57, 3.301), (58, 3.302), (59, 3.302),
   (60, 3.303), (61, 3.303), (62, 3.304), (63, 3.304), (64, 3.305), (65, 3.306),
   (66, 3.306), (67, 3.307), (68, 3.307), (69, 3.308), (70, 3.308), (71, 3.309),
   (72, 3.309), (73, 3.310), (74, 3.311), (75, 3.311), (76, 3.312), (77, 3.312),
   (78, 3.313), (79, 3.313), (80, 3.314), (81, 3.316), (82, 3.317), (83, 3.319),
   (84, 3.320), (85, 3.322), (86, 3.323), (87, 3.325), (88, 3.326), (89, 3.328),
   (90, 3.329), (91, 3.343), (92, 3.358), (93, 3.372), (94, 3.386), (95, 3.401),
   (96, 3.415), (97, 3.429), (98, 3.443), (99, 3.458), (100, 3.472)]"

definition OCV_SOC_TABLE_CHARGE :: "(real \<times> real) list" where
  "OCV_SOC_TABLE_CHARGE =
  [
   (0, 2.510), (1, 2.560), (2, 2.610), (3, 2.660), (4, 2.710), (5, 2.760),
   (6, 2.810), (7, 2.860), (8, 2.910), (9, 2.960), (10, 3.010), (11, 3.060),
   (12, 3.110), (13, 3.160), (14, 3.190), (15, 3.210), (16, 3.220), (17, 3.230),
   (18, 3.240), (19, 3.250), (20, 3.260), (21, 3.260), (22, 3.260), (23, 3.260),
   (24, 3.260), (25, 3.260), (26, 3.260), (27, 3.260), (28, 3.260), (29, 3.260),
   (30, 3.260), (31, 3.260), (32, 3.260), (33, 3.260), (34, 3.260), (35, 3.260),
   (36, 3.260), (37, 3.260), (38, 3.260), (39, 3.260), (40, 3.260), (41, 3.260),
   (42, 3.260), (43, 3.260), (44, 3.260), (45, 3.260), (46, 3.260), (47, 3.260),
   (48, 3.260), (49, 3.260), (50, 3.260), (51, 3.260), (52, 3.260), (53, 3.260),
   (54, 3.260), (55, 3.260), (56, 3.260), (57, 3.260), (58, 3.260), (59, 3.260),
   (60, 3.260), (61, 3.260), (62, 3.260), (63, 3.260), (64, 3.260), (65, 3.260),
   (66, 3.260), (67, 3.260), (68, 3.260), (69, 3.260), (70, 3.260), (71, 3.260),
   (72, 3.260), (73, 3.260), (74, 3.260), (75, 3.260), (76, 3.260), (77, 3.260),
   (78, 3.260), (79, 3.260), (80, 3.260), (81, 3.265), (82, 3.270), (83, 3.275),
   (84, 3.280), (85, 3.285), (86, 3.290), (87, 3.300), (88, 3.310), (89, 3.320),
   (90, 3.330), (91, 3.340), (92, 3.350), (93, 3.360), (94, 3.370), (95, 3.380),
   (96, 3.385), (97, 3.390), (98, 3.395), (99, 3.398), (100, 3.472)]"

definition R1 :: real where "R1 = 1 / 1000"
definition C1 :: real where "C1 = 2000"
definition R2 :: real where "R2 = 0.5 / 1000"
definition C2 :: real where "C2 = 10000"
definition OCV_TEMP_COEFF :: real where "OCV_TEMP_COEFF = - 0.5 / 1000"
definition CAPACITY_TEMP_COEFF :: real where "CAPACITY_TEMP_COEFF = 0.005"
definition FADE_RATE :: real where "FADE_RATE = 0.0001"
definition RESISTANCE_INCREASE_RATE :: real where "RESISTANCE_INCREASE_RATE = 0.001"
definition CALENDAR_AGING_ACTIVATION_ENERGY :: real where
  "CALENDAR_AGING_ACTIVATION_ENERGY = 30000"
definition GAS_CONSTANT :: real where "GAS_CONSTANT = 8.314"
definition CALENDAR_AGING_BASE_RATE :: real where "CALENDAR_AGING_BASE_RATE = 1 / 10 ^ 9"
definition CALENDAR_AGING_SOC_EXPONENT :: real where "CALENDAR_AGING_SOC_EXPONENT = 0.5"
definition THERMAL_MASS :: real where "THERMAL_MASS = 100"
definition THERMAL_RESISTANCE :: real where "THERMAL_RESISTANCE = 2"
definition MIN_VOLTAGE :: real where "MIN_VOLTAGE = 2.5"

subsection \<open>Instance state\<close>

record cell =
  capacity_nominal_ah :: real
  soc :: real
  temperature_c :: real
  ambient_temp_c :: real
  cycles :: int
  base_resistance_multiplier :: real
  v_rc1 :: real
  v_rc2 :: real
  last_current_direction :: int
  hysteresis_soc :: real
  calendar_aging_time_hours :: real
  last_update_time_hours :: real
  storage_soc :: real
  storage_temp :: real
  capacity_actual_ah :: real
  resistance_multiplier :: real

text \<open>
  The interpolation arrays built by the constructor: the SOC column of the discharge
  table as a fraction (used for both curves), and the OCV column of each table.
\<close>

definition soc_table :: "real list" where
  "soc_table = map (\<lambda>(p, v). p / 100) OCV_SOC_TABLE_DISCHARGE"

definition ocv_table_discharge :: "real list" where
  "ocv_table_discharge = map snd OCV_SOC_TABLE_DISCHARGE"

definition ocv_table_charge :: "real list" where
  "ocv_table_charge = map snd OCV_SOC_TABLE_CHARGE"

subsection \<open>Aging\<close>

text \<open>
  \<open>_update_aging\<close>. Its calendar branch, taken once calendar time has accumulated,
  divides by \<open>GAS_CONSTANT * temp_kelvin\<close> and raises the storage SOC and its
  complement to the power 0.5. In the source the division raises \<open>ZeroDivisionError\<close>
  at a storage temperature of -273.15, and the power of a negative number is a complex
  number, which then reaches the stored capacity. The definition is the real-valued
  reading of the method: it agrees with the source when the calendar branch is not
  taken and on the states of \<open>aging_inputs_real\<close>, for which the aging invariant is
  stated.
\<close>

definition update_aging :: "cell \<Rightarrow> cell" where
  "update_aging c =
     (let cycle_fade_factor = 1 - FADE_RATE * sqrt (real_of_int (max (cycles c) 0));
          cycle_fade_factor = max cycle_fade_factor 0.5;
          calendar_fade_factor =
            (if calendar_aging_time_hours c > 0 then
               let temp_kelvin = storage_temp c + 273.15;
                   arrhenius_factor =
                     exp (- CALENDAR_AGING_ACTIVATION_ENERGY / (GAS_CONSTANT * temp_kelvin));
                   soc_factor = (storage_soc c powr CALENDAR_AGING_SOC_EXPONENT)
                              + ((1 - storage_soc c) powr CALENDAR_AGING_SOC_EXPONENT);
                   soc_factor = soc_factor / 2;
                   calendar_aging_rate =
                     CALENDAR_AGING_BASE_RATE * arrhenius_factor * soc_factor;
                   calendar_fade = calendar_aging_rate * calendar_aging_time_hours c
               in 1 - min calendar_fade 0.3
             else 1);
          total_fade_factor = cycle_fade_factor * calendar_fade_factor;
          total_fade_factor = max total_fade_factor 0.5
      in c\<lparr>capacity_actual_ah := capacity_nominal_ah c * total_fade_factor,
            resistance_multiplier :=
              1 + RESISTANCE_INCREASE_RATE * real_of_int (max (cycles c) 0)\<rparr>)"

text \<open>
  The states on which the calendar branch computes within the real numbers: a storage
  SOC in [0, 1] and a storage temperature other than -273.15 degrees.
\<close>

definition aging_inputs_real :: "cell \<Rightarrow> bool" where
  "aging_inputs_real c \<longleftrightarrow>
     0 \<le> storage_soc c \<and> storage_soc c \<le> 1 \<and> storage_temp c \<noteq> - 273.15"

text \<open>
  The constructor \<open>LiFePO4Cell(capacity_ah, initial_soc, temperature_c, cycles,
  ambient_temp_c, resistance_multiplier)\<close>. Only the SOC and the resistance multiplier
  are limited; \<open>hysteresis_soc\<close> and \<open>storage_soc\<close> take the argument as given.
\<close>

definition LiFePO4Cell :: "real \<Rightarrow> real \<Rightarrow> real \<Rightarrow> int \<Rightarrow> real \<Rightarrow> real \<Rightarrow> cell" where
  "LiFePO4Cell capacity_ah initial_soc temp_c n_cycles ambient_c res_multiplier =
     update_aging
       \<lparr>capacity_nominal_ah = capacity_ah,
        soc = np_clip initial_soc 0 1,
        temperature_c = temp_c,
        ambient_temp_c = ambient_c,
        cycles = n_cycles,
        base_resistance_multiplier = max res_multiplier 0.1,
        v_rc1 = 0,
        v_rc2 = 0,
        last_current_direction = 0,
        hysteresis_soc = initial_soc,
        calendar_aging_time_hours = 0,
        last_update_time_hours = 0,
        storage_soc = initial_soc,
        storage_temp = temp_c,
        capacity_actual_ah = 0,
        resistance_multiplier = 0\<rparr>"

text \<open>The constructor with every argument at its default.\<close>

definition default_cell :: cell where
  "default_cell = LiFePO4Cell 100 0.5 25 0 25 1"

definition set_aging :: "cell \<Rightarrow> int \<Rightarrow> real option \<Rightarrow> cell" where
  "set_aging c n_cycles calendar_aging_hours =
     (let c = c\<lparr>cycles := max n_cycles 0\<rparr>;
          c = (case calendar_aging_hours of
                 None \<Rightarrow> c
               | Some h \<Rightarrow> c\<lparr>calendar_aging_time_hours := max h 0\<rparr>)
      in update_aging c)"

subsection \<open>Open-circuit voltage and internal resistance\<close>

definition get_ocv :: "cell \<Rightarrow> real option \<Rightarrow> real option \<Rightarrow> int option \<Rightarrow> real" where
  "get_ocv c soc_pct temp_c current_direction =
     (let s = (case soc_pct of None \<Rightarrow> soc c | Some p \<Rightarrow> np_clip (p / 100) 0 1);
          temp = (case temp_c of None \<Rightarrow> temperature_c c | Some t \<Rightarrow> t);
          direction = (case current_direction of
                         None \<Rightarrow> last_current_direction c | Some d \<Rightarrow> d)
      in if direction > 0 then
           np_interp s (zip soc_table ocv_table_charge) + OCV_TEMP_COEFF * (temp - 25)
         else if direction < 0 then
           np_interp s (zip soc_table ocv_table_discharge) + OCV_TEMP_COEFF * (temp - 25)
         else if last_current_direction c > 0 then
           np_interp s (zip soc_table ocv_table_charge) + OCV_TEMP_COEFF * (temp - 25)
         else if last_current_direction c < 0 then
           np_interp s (zip soc_table ocv_table_discharge) + OCV_TEMP_COEFF * (temp - 25)
         else
           (let ocv_charge = np_interp s (zip soc_table ocv_table_charge);
                ocv_discharge = np_interp s (zip soc_table ocv_table_discharge);
                ocv_base = (ocv_charge + ocv_discharge) / 2
            in ocv_base + OCV_TEMP_COEFF * (temp - 25)))"

definition get_internal_resistance :: "cell \<Rightarrow> real option \<Rightarrow> real option \<Rightarrow> real" where
  "get_internal_resistance c soc_pct temp_c =
     (let s = (case soc_pct of None \<Rightarrow> soc c | Some p \<Rightarrow> np_clip (p / 100) 0 1);
          temp = (case temp_c of None \<Rightarrow> temperature_c c | Some t \<Rightarrow> t);
          r0_base_multiplier =
            (if s \<le> 0.5 then 1.4 - (s * 0.8) else 1 - ((s - 0.5) * 0.5));
          r0_base_mohm = 0.5 * r0_base_multiplier;
          temp_factor = 1 - 0.005 * (temp - 25);
          temp_factor = max temp_factor 0.5
      in r0_base_mohm * temp_factor * base_resistance_multiplier c * resistance_multiplier c)"

subsection \<open>Thermal model\<close>

definition update_thermal_model :: "cell \<Rightarrow> real \<Rightarrow> real \<Rightarrow> real option \<Rightarrow> cell" where
  "update_thermal_model c current_ma dt_ms ambient_c =
     (let c = (case ambient_c of None \<Rightarrow> c | Some a \<Rightarrow> c\<lparr>ambient_temp_c := a\<rparr>);
          current_a = current_ma / 1000;
          r0_ohm = get_internal_resistance c None None / 1000;
          power_w = (current_a ^ 2) * r0_ohm;
          temp_diff = temperature_c c - ambient_temp_c c;
          heat_transfer_w = temp_diff / THERMAL_RESISTANCE;
          net_power_w = power_w - heat_transfer_w;
          dt_sec = dt_ms / 1000;
          dtemp = (net_power_w * dt_sec) / THERMAL_MASS;
          c = c\<lparr>temperature_c := temperature_c c + dtemp\<rparr>
      in c\<lparr>temperature_c := np_clip (temperature_c c) (- 40) 85\<rparr>)"

subsection \<open>The update step\<close>

text \<open>
  \<open>update(current_ma, dt_ms, temperature_c, ambient_temp_c)\<close> is one method; its
  commented blocks are given one definition each, in the order of the source, and
  composed in \<open>update\<close> below.
\<close>

text \<open>Thermal model, unless the temperature is forced.\<close>

definition update_temperature :: "cell \<Rightarrow> real \<Rightarrow> real \<Rightarrow> real option \<Rightarrow> real option \<Rightarrow> cell" where
  "update_temperature c current_ma dt_ms temp_c ambient_c =
     (case temp_c of
        None \<Rightarrow> update_thermal_model c current_ma dt_ms ambient_c
      | Some t \<Rightarrow> c\<lparr>temperature_c := t\<rparr>)"

text \<open>Temperature-dependent capacity and Coulomb counting.\<close>

definition update_soc :: "cell \<Rightarrow> real \<Rightarrow> real \<Rightarrow> cell" where
  "update_soc c current_ma dt_ms =
     (let temp_capacity_factor = 1 + CAPACITY_TEMP_COEFF * (temperature_c c - 25);
          capacity_ah = capacity_actual_ah c * temp_capacity_factor;
          current_a = current_ma / 1000;
          dt_hours = dt_ms / (1000 * 3600);
          dsoc = (current_a * dt_hours) / capacity_ah;
          c = c\<lparr>soc := soc c + dsoc\<rparr>
      in c\<lparr>soc := np_clip (soc c) 0 1\<rparr>)"

text \<open>Current direction for hysteresis: 1 charging, -1 discharging, 0 rest.\<close>

definition new_direction_of :: "real \<Rightarrow> int" where
  "new_direction_of current_ma =
     (if current_ma > 0.001 then 1
      else if current_ma < - 0.001 then - 1
      else 0)"

definition update_hysteresis :: "cell \<Rightarrow> int \<Rightarrow> cell" where
  "update_hysteresis c new_direction =
     (if new_direction \<noteq> 0 \<and> new_direction \<noteq> last_current_direction c then
        c\<lparr>hysteresis_soc := soc c, last_current_direction := new_direction\<rparr>
      else if new_direction \<noteq> 0 then
        c\<lparr>last_current_direction := new_direction\<rparr>
      else c)"

text \<open>The 2RC network with C-rate dependent resistances.\<close>

definition rc_scale_factor_of :: "cell \<Rightarrow> real \<Rightarrow> real" where
  "rc_scale_factor_of c current_a =
     (let current_c_rate =
            (if capacity_nominal_ah c > 0 then \<bar>current_a\<bar> / capacity_nominal_ah c else 0)
      in if current_c_rate \<le> 1 then 1
         else (let rc_scale_factor = 1 / (1 + 0.15 * (current_c_rate - 1))
               in max rc_scale_factor 0.3))"

definition update_rc :: "cell \<Rightarrow> real \<Rightarrow> real \<Rightarrow> cell" where
  "update_rc c current_ma dt_ms =
     (let current_a = current_ma / 1000;
          rc_scale_factor = rc_scale_factor_of c current_a;
          r1_effective = R1 * rc_scale_factor;
          r2_effective = R2 * rc_scale_factor;
          tau1 = r1_effective * C1;
          dt_sec = dt_ms / 1000;
          exp_factor1 = (if tau1 > 0 then exp (- dt_sec / tau1) else 0);
          c = c\<lparr>v_rc1 := v_rc1 c * exp_factor1 + current_a * r1_effective * (1 - exp_factor1)\<rparr>;
          tau2 = r2_effective * C2;
          exp_factor2 = (if tau2 > 0 then exp (- dt_sec / tau2) else 0)
      in c\<lparr>v_rc2 := v_rc2 c * exp_factor2 + current_a * r2_effective * (1 - exp_factor2)\<rparr>)"

text \<open>Terminal voltage in volts, with the 2.5 V floor.\<close>

definition terminal_voltage :: "cell \<Rightarrow> real \<Rightarrow> int \<Rightarrow> real" where
  "terminal_voltage c current_ma new_direction =
     (let current_a = current_ma / 1000;
          ocv = get_ocv c None None (Some new_direction);
          r0_ohm = get_internal_resistance c None None / 1000;
          ir_drop_magnitude = \<bar>current_a\<bar> * r0_ohm;
          v_terminal = ocv - ir_drop_magnitude - \<bar>v_rc1 c\<bar> - \<bar>v_rc2 c\<bar>
      in max v_terminal MIN_VOLTAGE)"

text \<open>Calendar-aging bookkeeping; aging is recomputed once more than an hour has passed.\<close>

definition update_calendar_aging :: "cell \<Rightarrow> real \<Rightarrow> real \<Rightarrow> cell" where
  "update_calendar_aging c current_ma dt_ms =
     (let current_time_hours = calendar_aging_time_hours c + (dt_ms / (1000 * 3600));
          c = (if \<bar>current_ma\<bar> < 0.001 then c\<lparr>storage_soc := soc c\<rparr> else c);
          c = c\<lparr>storage_temp := temperature_c c\<rparr>;
          c = c\<lparr>calendar_aging_time_hours := current_time_hours\<rparr>
      in if current_time_hours - last_update_time_hours c > 1 then
           (update_aging c)\<lparr>last_update_time_hours := current_time_hours\<rparr>
         else c)"

text \<open>The whole step: the pair (terminal voltage in mV, SOC in percent) and the new state.\<close>

definition update :: "cell \<Rightarrow> real \<Rightarrow> real \<Rightarrow> real option \<Rightarrow> real option \<Rightarrow> (real \<times> real) \<times> cell" where
  "update c current_ma dt_ms temp_c ambient_c =
     (let c = update_temperature c current_ma dt_ms temp_c ambient_c;
          c = update_soc c current_ma dt_ms;
          new_direction = new_direction_of current_ma;
          c = update_hysteresis c new_direction;
          c = update_rc c current_ma dt_ms;
          v_terminal = terminal_voltage c current_ma new_direction;
          c = update_calendar_aging c current_ma dt_ms;
          voltage_mv = v_terminal * 1000
      in ((voltage_mv, soc c * 100), c))"


subsection \<open>State read-out and reset\<close>

record cell_state =
  st_soc_pct :: real
  st_voltage_mv :: real
  st_temperature_c :: real
  st_capacity_ah :: real
  st_internal_resistance_mohm :: real
  st_cycles :: int
  st_calendar_aging_hours :: real
  st_rc1_voltage_v :: real
  st_rc2_voltage_v :: real
  st_current_direction :: int

definition get_state :: "cell \<Rightarrow> cell_state" where
  "get_state c =
     \<lparr>st_soc_pct = soc c * 100,
      st_voltage_mv = get_ocv c None None None * 1000,
      st_temperature_c = temperature_c c,
      st_capacity_ah = capacity_actual_ah c,
      st_internal_resistance_mohm = get_internal_resistance c None None,
      st_cycles = cycles c,
      st_calendar_aging_hours = calendar_aging_time_hours c,
      st_rc1_voltage_v = v_rc1 c,
      st_rc2_voltage_v = v_rc2 c,
      st_current_direction = last_current_direction c\<rparr>"

definition reset :: "cell \<Rightarrow> real option \<Rightarrow> real option \<Rightarrow> cell" where
  "reset c soc_pct temp_c =
     (let c = (case soc_pct of None \<Rightarrow> c | Some p \<Rightarrow> c\<lparr>soc := np_clip (p / 100) 0 1\<rparr>);
          c = (case temp_c of None \<Rightarrow> c | Some t \<Rightarrow> c\<lparr>temperature_c := t\<rparr>)
      in c\<lparr>v_rc1 := 0, v_rc2 := 0, last_current_direction := 0\<rparr>)"

subsection \<open>Properties of a cell state\<close>

text \<open>The aging invariant of the data model: the combined fade floor and the resistance growth.\<close>

definition aging_invariant :: "cell \<Rightarrow> bool" where
  "aging_invariant c \<longleftrightarrow>
     capacity_actual_ah c \<ge> 0.5 * capacity_nominal_ah c \<and> resistance_multiplier c \<ge> 1"


section \<open>Pack model (plant/pack\_model.py)\<close>

text \<open>Errors are values: the \<open>ValueError\<close> a method raises, with its message.\<close>

datatype error = ValueError string

definition NUM_CELLS :: nat where
  "NUM_CELLS = 16"

record pack =
  cell_capacity_nominal_ah :: real
  pack_ambient_temp_c :: real
  thermal_coupling_coeff :: real
  soc_calculation_mode :: string
  cells :: "cell list"
  capacity_multipliers :: "real list"
  resistance_multipliers :: "real list"
  base_resistance_multipliers :: "real list"
  fault_voltages :: "real option list"
  fault_temperatures :: "real option list"
  pack_current_ma :: real
  total_energy_ah :: real
  pack_cycles :: int

text \<open>
  The constructor. The three vectors drawn from the seeded generator
  (\<open>np.random.normal\<close> for capacity and SOC, \<open>np.random.uniform\<close> for resistance, 16
  values each) are arguments: \<open>capacity_draws\<close>, \<open>soc_draws\<close>, \<open>resistance_variations\<close>.
  Each cell is built with the pack's ambient temperature as its own temperature, and
  with the cell constructor's defaults for the cycle count and the ambient temperature.
\<close>

definition BatteryPack16S ::
  "real \<Rightarrow> real \<Rightarrow> real \<Rightarrow> real \<Rightarrow> string \<Rightarrow> real list \<Rightarrow> real list \<Rightarrow> real list \<Rightarrow> pack" where
  "BatteryPack16S cell_capacity_ah initial_soc_pct ambient_c coupling_coeff soc_mode
                  capacity_draws soc_draws resistance_variations =
     (let capacity_variations = map (\<lambda>x. np_clip x 0.98 1.02) capacity_draws;
          initial_soc_per_cell =
            map (\<lambda>v. np_clip ((initial_soc_pct / 100) + v) 0 1) soc_draws
      in \<lparr>cell_capacity_nominal_ah = cell_capacity_ah,
          pack_ambient_temp_c = ambient_c,
          thermal_coupling_coeff = coupling_coeff,
          soc_calculation_mode = soc_mode,
          cells = map (\<lambda>i. LiFePO4Cell (cell_capacity_ah * capacity_variations ! i)
                                        (initial_soc_per_cell ! i) ambient_c 0 25
                                        (resistance_variations ! i))
                      [0..<NUM_CELLS],
          capacity_multipliers = capacity_variations,
          resistance_multipliers = resistance_variations,
          base_resistance_multipliers = resistance_variations,
          fault_voltages = replicate NUM_CELLS None,
          fault_temperatures = replicate NUM_CELLS None,
          pack_current_ma = 0,
          total_energy_ah = 0,
          pack_cycles = 0\<rparr>)"

text \<open>A pack holds 16 cells and 16 override slots of each kind.\<close>

definition pack_wf :: "pack \<Rightarrow> bool" where
  "pack_wf p \<longleftrightarrow>
     length (cells p) = NUM_CELLS \<and>
     length (fault_voltages p) = NUM_CELLS \<and>
     length (fault_temperatures p) = NUM_CELLS"

text \<open>
  \<open>get_cell_voltages\<close>: a zero vector of 16 entries, overwritten cell by cell with the
  override if one is set and with the \<open>voltage_mv\<close> entry of the cell's state otherwise.
  With more than 16 cells the source raises an index error; \<open>pack_wf\<close> excludes that.
\<close>

definition get_cell_voltages :: "pack \<Rightarrow> real list" where
  "get_cell_voltages p =
     fold (\<lambda>(i, c) voltages.
             voltages[i := (case fault_voltages p ! i of
                              Some v \<Rightarrow> v
                            | None \<Rightarrow> st_voltage_mv (get_state c))])
          (enumerate 0 (cells p))
          (replicate NUM_CELLS 0)"

definition get_cell_temperatures :: "pack \<Rightarrow> real list" where
  "get_cell_temperatures p =
     fold (\<lambda>(i, c) temps.
             temps[i := (case fault_temperatures p ! i of
                           Some t \<Rightarrow> t
                         | None \<Rightarrow> temperature_c c)])
          (enumerate 0 (cells p))
          (replicate NUM_CELLS 0)"

definition get_cell_socs :: "pack \<Rightarrow> real list" where
  "get_cell_socs p = map (\<lambda>c. soc c * 100) (cells p)"

definition get_pack_voltage :: "pack \<Rightarrow> real" where
  "get_pack_voltage p = sum_list (get_cell_voltages p)"

definition get_pack_current :: "pack \<Rightarrow> real" where
  "get_pack_current p = pack_current_ma p"

text \<open>The fault interface: an index outside 0..15 raises and leaves the pack as it was.\<close>

definition set_cell_voltage :: "pack \<Rightarrow> int \<Rightarrow> real option \<Rightarrow> error + pack" where
  "set_cell_voltage p cell_index voltage_mv =
     (if cell_index < 0 \<or> cell_index \<ge> int NUM_CELLS then
        Inl (ValueError ''Cell index must be 0-15'')
      else Inr (p\<lparr>fault_voltages := (fault_voltages p)[nat cell_index := voltage_mv]\<rparr>))"

definition set_cell_temperature :: "pack \<Rightarrow> int \<Rightarrow> real option \<Rightarrow> error + pack" where
  "set_cell_temperature p cell_index temp_c =
     (if cell_index < 0 \<or> cell_index \<ge> int NUM_CELLS then
        Inl (ValueError ''Cell index must be 0-15'')
      else Inr (p\<lparr>fault_temperatures := (fault_temperatures p)[nat cell_index := temp_c]\<rparr>))"

definition clear_all_faults :: "pack \<Rightarrow> pack" where
  "clear_all_faults p =
     p\<lparr>fault_voltages := map (\<lambda>_. None) (fault_voltages p),
       fault_temperatures := map (\<lambda>_. None) (fault_temperatures p)\<rparr>"

text \<open>A pack without cell-to-cell variation: every draw at its mean.\<close>

definition uniform_pack :: pack where
  "uniform_pack =
     BatteryPack16S 100 50 25 0.1 ''minimum''
       (replicate 16 1) (replicate 16 0) (replicate 16 1)"

section \<open>AFE measurement wrapper (afe/wrapper.py)\<close>

subsection \<open>Rounding and conversion\<close>

text \<open>
  \<open>np.round\<close> and Python's \<open>round\<close> round to the nearest integer, ties to the even
  one.
\<close>

definition np_round :: "real \<Rightarrow> real" where
  "np_round x =
     (let f = \<lfloor>x\<rfloor>; d = x - of_int f
      in if d < 1 / 2 then of_int f
         else if d > 1 / 2 then of_int (f + 1)
         else if even f then of_int f
         else of_int (f + 1))"

text \<open>
  \<open>astype(np.int16)\<close>: the fraction is cut off towards zero. A value outside the range
  of 16 bits has no defined result in numpy; the model wraps it around.
\<close>

definition astype_int16 :: "real \<Rightarrow> int" where
  "astype_int16 x = signed_take_bit 15 (if x \<ge> 0 then \<lfloor>x\<rfloor> else \<lceil>x\<rceil>)"

subsection \<open>Fault types and scheduled events\<close>

datatype FaultType =
  OPEN_WIRE | STUCK_ADC | NTC_OPEN | NTC_SHORT | CURRENT_SENSOR_FAULT | CRC_ERROR

text \<open>A fault type is passed as the enum member or as a string naming it.\<close>

datatype fault_arg = Enum FaultType | Str string

definition lower_char :: "char \<Rightarrow> char" where
  "lower_char ch =
     (let n = (of_char ch :: nat)
      in if 65 \<le> n \<and> n \<le> 90 then char_of (n + 32) else ch)"

definition fault_type_of_value :: "string \<Rightarrow> FaultType option" where
  "fault_type_of_value v =
     (if v = ''open_wire'' then Some OPEN_WIRE
      else if v = ''stuck_adc'' then Some STUCK_ADC
      else if v = ''ntc_open'' then Some NTC_OPEN
      else if v = ''ntc_short'' then Some NTC_SHORT
      else if v = ''current_sensor_fault'' then Some CURRENT_SENSOR_FAULT
      else if v = ''crc_error'' then Some CRC_ERROR
      else None)"

text \<open>The coercion at the head of \<open>inject_fault\<close> and \<open>clear_fault\<close>.\<close>

definition coerce_fault_type :: "fault_arg \<Rightarrow> error + FaultType" where
  "coerce_fault_type a =
     (case a of
        Enum ft \<Rightarrow> Inr ft
      | Str s \<Rightarrow>
          (case fault_type_of_value (map lower_char s) of
             Some ft \<Rightarrow> Inr ft
           | None \<Rightarrow> Inl (ValueError (''Unknown fault type: '' @ s))))"

text \<open>
  The two shapes of dictionary in the fault schedule: an injection queued by
  \<open>schedule_fault\<close> (fault type, cell mask, inject time, duration, injected flag), and a
  clearing queued by \<open>inject_fault\<close> with a duration (fault type, cell mask, clear time).
\<close>

datatype fault_event =
  ScheduledFault fault_arg "int option" real "real option" bool
| ClearEvent fault_arg "int option" real

definition event_pending :: "fault_event \<Rightarrow> bool" where
  "event_pending ev =
     (case ev of
        ScheduledFault ft m t d injected \<Rightarrow> \<not> injected
      | ClearEvent ft m t \<Rightarrow> False)"

subsection \<open>Instance state\<close>

definition VOLTAGE_RESOLUTION_MV :: real where "VOLTAGE_RESOLUTION_MV = 0.1"
definition TEMPERATURE_RESOLUTION_C :: real where "TEMPERATURE_RESOLUTION_C = 0.1"
definition CURRENT_RESOLUTION_MA :: real where "CURRENT_RESOLUTION_MA = 1"
definition INVALID_VOLTAGE_MV :: real where "INVALID_VOLTAGE_MV = 0"
definition INVALID_TEMP_C :: real where "INVALID_TEMP_C = - 32768"
definition INVALID_CURRENT_MA :: real where "INVALID_CURRENT_MA = 0"

record afe =
  voltage_noise_mv :: real
  temp_noise_c :: real
  current_noise_ma :: real
  voltage_gain_errors :: "real list"
  voltage_offsets_mv :: "real list"
  temp_offsets_c :: "real list"
  current_gain_error :: real
  current_offset_ma :: real
  open_wire_mask :: int
  stuck_adc_mask :: int
  stuck_adc_values :: "real list"
  ntc_fault_mask :: int
  current_sensor_fault :: bool
  crc_error_rate :: real
  fault_schedule :: "fault_event list"
  start_time_ms :: "real option"
  status_flags :: int
  measurement_count :: int
  crc_error_count :: int

text \<open>
  What one call takes from outside the instance: the wall clock in ms
  (\<open>time.time() * 1000\<close>), the standard-normal samples behind the three noise vectors
  (\<open>np.random.normal(0, sigma)\<close> is \<open>0 + sigma * z\<close>), and the uniform sample of the CRC
  trial.
\<close>

record env =
  env_time_ms :: real
  env_voltage_z :: "real list"
  env_temp_z :: "real list"
  env_current_z :: real
  env_crc_sample :: real

text \<open>
  The constructor, with the noise levels and the calibration values drawn from the
  seeded generator as arguments.
\<close>

definition AFEWrapper ::
  "real \<Rightarrow> real \<Rightarrow> real \<Rightarrow> real list \<Rightarrow> real list \<Rightarrow> real list \<Rightarrow> real \<Rightarrow> real \<Rightarrow> afe" where
  "AFEWrapper v_noise t_noise i_noise v_gains v_offsets t_offsets i_gain i_offset =
     \<lparr>voltage_noise_mv = v_noise,
      temp_noise_c = t_noise,
      current_noise_ma = i_noise,
      voltage_gain_errors = v_gains,
      voltage_offsets_mv = v_offsets,
      temp_offsets_c = t_offsets,
      current_gain_error = i_gain,
      current_offset_ma = i_offset,
      open_wire_mask = 0,
      stuck_adc_mask = 0,
      stuck_adc_values = replicate NUM_CELLS 0,
      ntc_fault_mask = 0,
      current_sensor_fault = False,
      crc_error_rate = 0,
      fault_schedule = [],
      start_time_ms = None,
      status_flags = 0,
      measurement_count = 0,
      crc_error_count = 0\<rparr>"

text \<open>
  A method returns its result, or the \<open>ValueError\<close> it raised, together with the state
  the instance is left in.
\<close>

type_synonym 'a outcome = "(error + 'a) \<times> afe"

definition get_current_time_ms :: "afe \<Rightarrow> real \<Rightarrow> real" where
  "get_current_time_ms s now =
     (case start_time_ms s of None \<Rightarrow> 0 | Some t0 \<Rightarrow> now - t0)"

definition start_simulation :: "afe \<Rightarrow> real \<Rightarrow> afe" where
  "start_simulation s now = s\<lparr>start_time_ms := Some now\<rparr>"

subsection \<open>Fault management\<close>

text \<open>The mask part of \<open>inject_fault\<close>: the chain over the fault types.\<close>

definition inject_fault_mask :: "afe \<Rightarrow> FaultType \<Rightarrow> int option \<Rightarrow> error + afe" where
  "inject_fault_mask s ft cell_mask =
     (case ft of
        OPEN_WIRE \<Rightarrow>
          (case cell_mask of
             None \<Rightarrow> Inl (ValueError ''cell_mask required for open_wire fault'')
           | Some m \<Rightarrow> Inr (s\<lparr>open_wire_mask := open_wire_mask s OR m\<rparr>))
      | STUCK_ADC \<Rightarrow>
          (case cell_mask of
             None \<Rightarrow> Inl (ValueError ''cell_mask required for stuck_adc fault'')
           | Some m \<Rightarrow> Inr (s\<lparr>stuck_adc_mask := stuck_adc_mask s OR m\<rparr>))
      | NTC_OPEN \<Rightarrow>
          (case cell_mask of
             None \<Rightarrow> Inl (ValueError ''cell_mask required for NTC fault'')
           | Some m \<Rightarrow> Inr (s\<lparr>ntc_fault_mask := ntc_fault_mask s OR m\<rparr>))
      | NTC_SHORT \<Rightarrow>
          (case cell_mask of
             None \<Rightarrow> Inl (ValueError ''cell_mask required for NTC fault'')
           | Some m \<Rightarrow> Inr (s\<lparr>ntc_fault_mask := ntc_fault_mask s OR m\<rparr>))
      | CURRENT_SENSOR_FAULT \<Rightarrow> Inr (s\<lparr>current_sensor_fault := True\<rparr>)
      | CRC_ERROR \<Rightarrow> Inr s)"

definition inject_fault ::
  "afe \<Rightarrow> fault_arg \<Rightarrow> int option \<Rightarrow> real option \<Rightarrow> real \<Rightarrow> unit outcome" where
  "inject_fault s fault_type cell_mask duration_ms now =
     (case coerce_fault_type fault_type of
        Inl e \<Rightarrow> (Inl e, s)
      | Inr ft \<Rightarrow>
          (case inject_fault_mask s ft cell_mask of
             Inl e \<Rightarrow> (Inl e, s)
           | Inr s \<Rightarrow>
               (case duration_ms of
                  None \<Rightarrow> (Inr (), s)
                | Some d \<Rightarrow>
                    (let current_time = get_current_time_ms s now;
                         clear_time = current_time + d
                     in (Inr (),
                         s\<lparr>fault_schedule :=
                             fault_schedule s @ [ClearEvent (Enum ft) cell_mask clear_time]\<rparr>)))))"

definition clear_fault :: "afe \<Rightarrow> fault_arg \<Rightarrow> int option \<Rightarrow> unit outcome" where
  "clear_fault s fault_type cell_mask =
     (case coerce_fault_type fault_type of
        Inl e \<Rightarrow> (Inl e, s)
      | Inr ft \<Rightarrow>
          (Inr (),
           (case ft of
              OPEN_WIRE \<Rightarrow>
                (case cell_mask of
                   None \<Rightarrow> s\<lparr>open_wire_mask := 0\<rparr>
                 | Some m \<Rightarrow> s\<lparr>open_wire_mask := open_wire_mask s AND NOT m\<rparr>)
            | STUCK_ADC \<Rightarrow>
                (case cell_mask of
                   None \<Rightarrow> s\<lparr>stuck_adc_mask := 0\<rparr>
                 | Some m \<Rightarrow> s\<lparr>stuck_adc_mask := stuck_adc_mask s AND NOT m\<rparr>)
            | NTC_OPEN \<Rightarrow>
                (case cell_mask of
                   None \<Rightarrow> s\<lparr>ntc_fault_mask := 0\<rparr>
                 | Some m \<Rightarrow> s\<lparr>ntc_fault_mask := ntc_fault_mask s AND NOT m\<rparr>)
            | NTC_SHORT \<Rightarrow>
                (case cell_mask of
                   None \<Rightarrow> s\<lparr>ntc_fault_mask := 0\<rparr>
                 | Some m \<Rightarrow> s\<lparr>ntc_fault_mask := ntc_fault_mask s AND NOT m\<rparr>)
            | CURRENT_SENSOR_FAULT \<Rightarrow> s\<lparr>current_sensor_fault := False\<rparr>
            | CRC_ERROR \<Rightarrow> s)))"

definition schedule_fault ::
  "afe \<Rightarrow> fault_arg \<Rightarrow> real \<Rightarrow> int option \<Rightarrow> real option \<Rightarrow> afe" where
  "schedule_fault s fault_type inject_time_ms cell_mask duration_ms =
     s\<lparr>fault_schedule :=
         fault_schedule s
           @ [ScheduledFault fault_type cell_mask inject_time_ms duration_ms False]\<rparr>"

definition set_crc_error_rate :: "afe \<Rightarrow> real \<Rightarrow> unit outcome" where
  "set_crc_error_rate s error_rate =
     (if \<not> (0 \<le> error_rate \<and> error_rate \<le> 1) then
        (Inl (ValueError ''CRC error rate must be between 0.0 and 1.0''), s)
      else (Inr (), s\<lparr>crc_error_rate := error_rate\<rparr>))"

definition afe_reset :: "afe \<Rightarrow> afe" where
  "afe_reset s =
     s\<lparr>open_wire_mask := 0,
       stuck_adc_mask := 0,
       stuck_adc_values := map (\<lambda>_. 0) (stuck_adc_values s),
       ntc_fault_mask := 0,
       current_sensor_fault := False,
       crc_error_rate := 0,
       fault_schedule := [],
       status_flags := 0,
       measurement_count := 0,
       crc_error_count := 0,
       start_time_ms := None\<rparr>"

subsection \<open>Fault schedule\<close>

text \<open>
  \<open>_update_fault_schedule\<close> walks \<open>self._fault_schedule\<close> by position while
  \<open>inject_fault\<close> may append to that same list, so appended events are visited in the
  same pass. The walk is a recursion on the position \<open>i\<close> in the live list of the state;
  \<open>remaining_schedule\<close> replaces the list when the walk ends. The elapsed time is read
  once, before the walk. An exception of
  \<open>inject_fault\<close> or \<open>clear_fault\<close> ends the walk and leaves the live list in place.
\<close>

definition schedule_measure :: "afe \<Rightarrow> nat \<Rightarrow> nat" where
  "schedule_measure s i =
     (length (fault_schedule s) - i)
       + 2 * length (filter event_pending (drop i (fault_schedule s)))"

function update_fault_schedule_from ::
  "real \<Rightarrow> real \<Rightarrow> nat \<Rightarrow> fault_event list \<Rightarrow> afe \<Rightarrow> unit outcome" where
  "update_fault_schedule_from now current_time i remaining_schedule s =
     (if i \<ge> length (fault_schedule s) then
        (Inr (), s\<lparr>fault_schedule := remaining_schedule\<rparr>)
      else
        (case fault_schedule s ! i of
           ScheduledFault ft cell_mask inject_time_ms duration_ms injected \<Rightarrow>
             (if \<not> injected \<and> current_time \<ge> inject_time_ms then
                (case inject_fault s ft cell_mask duration_ms now of
                   (Inl e, s1) \<Rightarrow> (Inl e, s1)
                 | (Inr u, s1) \<Rightarrow>
                     (let ev = ScheduledFault ft cell_mask inject_time_ms duration_ms True;
                          s2 = s1\<lparr>fault_schedule := (fault_schedule s1)[i := ev]\<rparr>
                      in if duration_ms = None then
                           update_fault_schedule_from now current_time (Suc i) remaining_schedule s2
                         else
                           update_fault_schedule_from now current_time (Suc i) (remaining_schedule @ [ev]) s2))
              else
                update_fault_schedule_from now current_time (Suc i)
                  (remaining_schedule @ [fault_schedule s ! i]) s)
         | ClearEvent ft cell_mask clear_time_ms \<Rightarrow>
             (if current_time \<ge> clear_time_ms then
                (case clear_fault s ft cell_mask of
                   (Inl e, s1) \<Rightarrow> (Inl e, s1)
                 | (Inr u, s1) \<Rightarrow>
                     update_fault_schedule_from now current_time (Suc i) remaining_schedule s1)
              else
                update_fault_schedule_from now current_time (Suc i)
                  (remaining_schedule @ [fault_schedule s ! i]) s)))"
  by pat_completeness auto

termination update_fault_schedule_from
proof (relation "measure (\<lambda>(now, current_time, i, remaining, s). schedule_measure s i)", goal_cases)
  have inject: "fault_schedule s' = fault_schedule s \<or>
     (\<exists>ev. fault_schedule s' = fault_schedule s @ [ev] \<and> \<not> event_pending ev)"
    if "inject_fault s ft m d now = (r, s')" for s ft m d now r s'
    using that
    by (auto simp: inject_fault_def inject_fault_mask_def Let_def event_pending_def
             split: sum.splits option.splits FaultType.splits)
  have clear: "fault_schedule s' = fault_schedule s"
    if "clear_fault s ft m = (r, s')" for s ft m r s'
    using that by (auto simp: clear_fault_def split: sum.splits option.splits FaultType.splits)
  have drop_head: "drop i xs = xs ! i # drop (Suc i) xs"
    if "i < length xs" for i and xs :: "fault_event list"
    using that by (simp add: Cons_nth_drop_Suc)
  have drop_update: "length (filter event_pending (drop (Suc i) (xs[i := ev] @ ys)))
           = length (filter event_pending (drop i xs)) + length (filter event_pending ys) - 1"
    if "i < length xs" "event_pending (xs ! i)" for i xs ev ys
  proof -
    have "drop (Suc i) (xs[i := ev] @ ys) = drop (Suc i) xs @ ys"
      using that(1) by simp
    then show ?thesis using drop_head [OF that(1)] that(2) by simp
  qed
  have drop_pos: "0 < length (filter event_pending (drop i xs))"
    if "i < length xs" "event_pending (xs ! i)" for i xs
    using drop_head [OF that(1)] that(2) by simp
  have drop_Suc: "length (filter event_pending (drop (Suc i) xs))
           \<le> length (filter event_pending (drop i xs))" for i xs
  proof (cases "i < length xs")
    case True
    then show ?thesis using drop_head [of i xs] by simp
  next
    case False
    then show ?thesis by simp
  qed
  {
    case 1
    then show ?case by simp
  next
    case (2 now current_time i remaining s ft cell_mask inject_time_ms duration_ms injected x y u ev s2)
    then have p: "event_pending (fault_schedule s ! i)" and i: "i < length (fault_schedule s)"
      by (simp_all add: event_pending_def)
    have "fault_schedule y = fault_schedule s"
      using inject [of s ft cell_mask duration_ms now x y] 2
      by (auto simp: inject_fault_def inject_fault_mask_def
               split: sum.splits option.splits FaultType.splits)
    then show ?case
      using 2 p i drop_update [of i "fault_schedule s" ev "[]"]
      by (simp add: schedule_measure_def event_pending_def)
  next
    case (3 now current_time i remaining s ft cell_mask inject_time_ms duration_ms injected x y u ev s2)
    then have p: "event_pending (fault_schedule s ! i)" and i: "i < length (fault_schedule s)"
      by (simp_all add: event_pending_def)
    define k where "k = length (filter event_pending (drop i (fault_schedule s)))"
    have k: "0 < k"
      using drop_pos [of i "fault_schedule s"] p i by (simp add: k_def)
    from inject [of s ft cell_mask duration_ms now x y] 3
    consider "fault_schedule y = fault_schedule s"
      | e where "fault_schedule y = fault_schedule s @ [e]" "\<not> event_pending e"
      by auto
    then have "schedule_measure s2 (Suc i) < schedule_measure s i"
    proof cases
      case 1
      then have s2: "fault_schedule s2 = (fault_schedule s)[i := ev] @ []"
        using 3 by simp
      have c: "length (filter event_pending (drop (Suc i) (fault_schedule s2))) = k - 1"
        unfolding s2 k_def
        using drop_update [of i "fault_schedule s" ev "[]"] p i by simp
      have "schedule_measure s2 (Suc i) = (length (fault_schedule s) - Suc i) + 2 * (k - 1)"
        unfolding schedule_measure_def c by (simp add: s2)
      moreover have "schedule_measure s i = (length (fault_schedule s) - i) + 2 * k"
        by (simp add: schedule_measure_def k_def)
      ultimately show ?thesis using k i by arith
    next
      case 2
      have s2: "fault_schedule s2 = (fault_schedule s)[i := ev] @ [e]"
        using 3 2 i by (simp add: list_update_append)
      have c: "length (filter event_pending (drop (Suc i) (fault_schedule s2))) = k - 1"
        unfolding s2 k_def
        using drop_update [of i "fault_schedule s" ev "[e]"] p i 2(2) by simp
      have "schedule_measure s2 (Suc i) = (length (fault_schedule s) - i) + 2 * (k - 1)"
        unfolding schedule_measure_def c by (simp add: s2)
      moreover have "schedule_measure s i = (length (fault_schedule s) - i) + 2 * k"
        by (simp add: schedule_measure_def k_def)
      ultimately show ?thesis using k by arith
    qed
    then show ?case by simp
  next
    case (4 now current_time i remaining s ft cell_mask inject_time_ms duration_ms injected)
    then show ?case
      using drop_Suc [of i "fault_schedule s"]
      by (simp add: schedule_measure_def)
  next
    case (5 now current_time i remaining s ft cell_mask clear_time_ms x y u)
    then have "fault_schedule y = fault_schedule s"
      using clear [of s ft cell_mask x y] by simp
    then show ?case
      using 5 drop_Suc [of i "fault_schedule s"]
      by (simp add: schedule_measure_def)
  next
    case (6 now current_time i remaining s ft cell_mask clear_time_ms)
    then show ?case
      using drop_Suc [of i "fault_schedule s"]
      by (simp add: schedule_measure_def)
  }
qed

definition update_fault_schedule :: "afe \<Rightarrow> real \<Rightarrow> unit outcome" where
  "update_fault_schedule s now =
     (let current_time = get_current_time_ms s now
      in update_fault_schedule_from now current_time 0 [] s)"

subsection \<open>Measurement processing\<close>

text \<open>Calibration and noise, channel by channel.\<close>

definition calibrated_voltages :: "afe \<Rightarrow> real list \<Rightarrow> real list \<Rightarrow> real list" where
  "calibrated_voltages s true_voltages z =
     map (\<lambda>i. true_voltages ! i * voltage_gain_errors s ! i + voltage_offsets_mv s ! i
                + (0 + voltage_noise_mv s * z ! i))
         [0..<NUM_CELLS]"

definition quantize_voltage :: "real \<Rightarrow> real" where
  "quantize_voltage x =
     np_clip (np_round (x / VOLTAGE_RESOLUTION_MV) * VOLTAGE_RESOLUTION_MV) 0 6553.5"

text \<open>
  One round of the fault loop of \<open>_process_voltages\<close> for channel \<open>i\<close>: open wire,
  else stuck ADC (capture on the first faulted cycle, replay afterwards), else refresh
  the stored value.
\<close>

definition voltage_fault_step :: "nat \<Rightarrow> real list \<times> afe \<Rightarrow> real list \<times> afe" where
  "voltage_fault_step i = (\<lambda>(measured_voltages, s).
     (let cell_mask = push_bit i (1::int)
      in if open_wire_mask s AND cell_mask \<noteq> 0 then
           (measured_voltages[i := INVALID_VOLTAGE_MV], s)
         else if stuck_adc_mask s AND cell_mask \<noteq> 0 then
           (if stuck_adc_values s ! i = 0 then
              (measured_voltages,
               s\<lparr>stuck_adc_values := (stuck_adc_values s)[i := measured_voltages ! i]\<rparr>)
            else
              (measured_voltages[i := stuck_adc_values s ! i], s))
         else
           (measured_voltages,
            s\<lparr>stuck_adc_values := (stuck_adc_values s)[i := measured_voltages ! i]\<rparr>)))"

definition process_voltages :: "afe \<Rightarrow> real list \<Rightarrow> real list \<Rightarrow> real list \<times> afe" where
  "process_voltages s true_voltages z =
     (let measured_voltages = calibrated_voltages s true_voltages z;
          (measured_voltages, s) = fold voltage_fault_step [0..<NUM_CELLS] (measured_voltages, s)
      in (map quantize_voltage measured_voltages, s))"

definition process_temperatures :: "afe \<Rightarrow> real list \<Rightarrow> real list \<Rightarrow> int list" where
  "process_temperatures s true_temps z =
     (let measured_temps =
            map (\<lambda>i. true_temps ! i + temp_offsets_c s ! i + (0 + temp_noise_c s * z ! i))
                [0..<NUM_CELLS];
          measured_temps =
            fold (\<lambda>i temps. if ntc_fault_mask s AND push_bit i 1 \<noteq> 0
                              then temps[i := INVALID_TEMP_C / 100] else temps)
                 [0..<NUM_CELLS] measured_temps;
          measured_temps =
            map (\<lambda>t. np_round (t / TEMPERATURE_RESOLUTION_C) * TEMPERATURE_RESOLUTION_C)
                measured_temps
      in map (\<lambda>t. astype_int16 (t * 100)) measured_temps)"

definition process_current :: "afe \<Rightarrow> real \<Rightarrow> real \<Rightarrow> real" where
  "process_current s true_current z =
     (let measured_current = true_current;
          measured_current = measured_current * current_gain_error s + current_offset_ma s;
          measured_current = measured_current + (0 + current_noise_ma s * z);
          measured_current =
            (if current_sensor_fault s then INVALID_CURRENT_MA else measured_current)
      in np_round (measured_current / CURRENT_RESOLUTION_MA) * CURRENT_RESOLUTION_MA)"

text \<open>The status word, rebuilt from zero.\<close>

definition update_status_flags :: "afe \<Rightarrow> real list \<Rightarrow> int list \<Rightarrow> real \<Rightarrow> afe" where
  "update_status_flags s voltages temps current =
     (let flags = (0::int);
          flags = flags OR open_wire_mask s;
          flags = fold (\<lambda>i flags. if voltages ! i = INVALID_VOLTAGE_MV
                                   then flags OR push_bit i 1 else flags)
                       [0..<NUM_CELLS] flags;
          flags = fold (\<lambda>i flags. if temps ! i \<le> - 32000
                                   then flags OR push_bit (16 + i) 1 else flags)
                       [0..<NUM_CELLS] flags;
          flags = (if current_sensor_fault s \<or> current = INVALID_CURRENT_MA
                   then flags OR push_bit 30 1 else flags)
      in s\<lparr>status_flags := flags\<rparr>)"

text \<open>The CRC trial: the uniform sample is compared only for a positive rate.\<close>

definition should_inject_crc_error :: "afe \<Rightarrow> real \<Rightarrow> bool" where
  "should_inject_crc_error s sample =
     (if crc_error_rate s \<le> 0 then False else sample < crc_error_rate s)"

text \<open>A CRC error changes no data; it is counted and sets bit 31.\<close>

definition apply_crc_error :: "afe \<Rightarrow> real \<Rightarrow> afe" where
  "apply_crc_error s sample =
     (if should_inject_crc_error s sample then
        s\<lparr>crc_error_count := crc_error_count s + 1,
          status_flags := status_flags s OR push_bit 31 1\<rparr>
      else s)"

definition apply_measurement ::
  "afe \<Rightarrow> real list \<Rightarrow> real list \<Rightarrow> real \<Rightarrow> env
     \<Rightarrow> (real list \<times> int list \<times> real \<times> int) outcome" where
  "apply_measurement s true_voltages true_temps true_current e =
     (let s = s\<lparr>measurement_count := measurement_count s + 1\<rparr>
      in case update_fault_schedule s (env_time_ms e) of
           (Inl err, s) \<Rightarrow> (Inl err, s)
         | (Inr u, s) \<Rightarrow>
             (let (measured_voltages, s) = process_voltages s true_voltages (env_voltage_z e);
                  measured_temps = process_temperatures s true_temps (env_temp_z e);
                  measured_current = process_current s true_current (env_current_z e);
                  s = update_status_flags s measured_voltages measured_temps measured_current;
                  s = apply_crc_error s (env_crc_sample e)
              in (Inr (measured_voltages, measured_temps, measured_current, status_flags s), s)))"

definition get_status_flags :: "afe \<Rightarrow> int" where
  "get_status_flags s = status_flags s"

subsection \<open>Reading results and running several measurements\<close>

text \<open>What a call returned, if it did not raise.\<close>

definition returned :: "'a outcome \<Rightarrow> 'a option" where
  "returned r = (case fst r of Inl e \<Rightarrow> None | Inr x \<Rightarrow> Some x)"

definition returned_voltages :: "(real list \<times> int list \<times> real \<times> int) outcome \<Rightarrow> real list" where
  "returned_voltages r =
     (case returned r of Some (mv, mt, mi, flags) \<Rightarrow> mv | None \<Rightarrow> [])"

definition returned_temps :: "(real list \<times> int list \<times> real \<times> int) outcome \<Rightarrow> int list" where
  "returned_temps r =
     (case returned r of Some (mv, mt, mi, flags) \<Rightarrow> mt | None \<Rightarrow> [])"

definition returned_flags :: "(real list \<times> int list \<times> real \<times> int) outcome \<Rightarrow> int" where
  "returned_flags r =
     (case returned r of Some (mv, mt, mi, flags) \<Rightarrow> flags | None \<Rightarrow> 0)"

text \<open>Successive \<open>apply_measurement\<close> calls: the outcomes in call order and the final state.\<close>

fun apply_measurements ::
  "afe \<Rightarrow> (real list \<times> real list \<times> real \<times> env) list
     \<Rightarrow> (error + real list \<times> int list \<times> real \<times> int) list \<times> afe" where
  "apply_measurements s [] = ([], s)"
| "apply_measurements s ((true_voltages, true_temps, true_current, e) # rest) =
     (let (r, s1) = apply_measurement s true_voltages true_temps true_current e;
          (rs, s2) = apply_measurements s1 rest
      in (r # rs, s2))"

text \<open>
  Two instances differ at most in the stored stuck-ADC values: the frame of the voltage
  fault loop.
\<close>

definition same_but_stuck :: "afe \<Rightarrow> afe \<Rightarrow> bool" where
  "same_but_stuck s s' \<longleftrightarrow> s' = s\<lparr>stuck_adc_values := stuck_adc_values s'\<rparr>"

text \<open>Two instances process a voltage channel alike, faults apart.\<close>

definition same_voltage_setup :: "afe \<Rightarrow> afe \<Rightarrow> bool" where
  "same_voltage_setup s t \<longleftrightarrow>
     voltage_gain_errors t = voltage_gain_errors s \<and>
     voltage_offsets_mv t = voltage_offsets_mv s \<and>
     voltage_noise_mv t = voltage_noise_mv s \<and>
     stuck_adc_mask t = stuck_adc_mask s"

text \<open>
  An instance without noise and without calibration error, and the inputs of a quiet
  call: all noise samples zero, the CRC sample at one half.
\<close>

definition ideal_afe :: afe where
  "ideal_afe =
     AFEWrapper 0 0 0 (replicate 16 1) (replicate 16 0) (replicate 16 0) 1 0"

definition quiet_env :: env where
  "quiet_env =
     \<lparr>env_time_ms = 0,
      env_voltage_z = replicate 16 0,
      env_temp_z = replicate 16 0,
      env_current_z = 0,
      env_crc_sample = 0.5\<rparr>"

section \<open>Verification of the cell model\<close>

subsection \<open>Which fields each block of the update step leaves alone\<close>

lemma update_aging_frame [simp]:
  "capacity_nominal_ah (update_aging c) = capacity_nominal_ah c"
  "soc (update_aging c) = soc c"
  "temperature_c (update_aging c) = temperature_c c"
  "ambient_temp_c (update_aging c) = ambient_temp_c c"
  "cycles (update_aging c) = cycles c"
  "base_resistance_multiplier (update_aging c) = base_resistance_multiplier c"
  "v_rc1 (update_aging c) = v_rc1 c"
  "v_rc2 (update_aging c) = v_rc2 c"
  "last_current_direction (update_aging c) = last_current_direction c"
  "hysteresis_soc (update_aging c) = hysteresis_soc c"
  "calendar_aging_time_hours (update_aging c) = calendar_aging_time_hours c"
  "last_update_time_hours (update_aging c) = last_update_time_hours c"
  "storage_soc (update_aging c) = storage_soc c"
  "storage_temp (update_aging c) = storage_temp c"
  by (simp_all add: update_aging_def Let_def)

lemma update_thermal_model_frame [simp]:
  "capacity_nominal_ah (update_thermal_model c current_ma dt_ms ambient_c) = capacity_nominal_ah c"
  "soc (update_thermal_model c current_ma dt_ms ambient_c) = soc c"
  "cycles (update_thermal_model c current_ma dt_ms ambient_c) = cycles c"
  "base_resistance_multiplier (update_thermal_model c current_ma dt_ms ambient_c) = base_resistance_multiplier c"
  "v_rc1 (update_thermal_model c current_ma dt_ms ambient_c) = v_rc1 c"
  "v_rc2 (update_thermal_model c current_ma dt_ms ambient_c) = v_rc2 c"
  "last_current_direction (update_thermal_model c current_ma dt_ms ambient_c) = last_current_direction c"
  "hysteresis_soc (update_thermal_model c current_ma dt_ms ambient_c) = hysteresis_soc c"
  "calendar_aging_time_hours (update_thermal_model c current_ma dt_ms ambient_c) = calendar_aging_time_hours c"
  "last_update_time_hours (update_thermal_model c current_ma dt_ms ambient_c) = last_update_time_hours c"
  "storage_soc (update_thermal_model c current_ma dt_ms ambient_c) = storage_soc c"
  "storage_temp (update_thermal_model c current_ma dt_ms ambient_c) = storage_temp c"
  "capacity_actual_ah (update_thermal_model c current_ma dt_ms ambient_c) = capacity_actual_ah c"
  "resistance_multiplier (update_thermal_model c current_ma dt_ms ambient_c) = resistance_multiplier c"
  by (simp_all add: update_thermal_model_def Let_def split: option.split)

lemma update_temperature_frame [simp]:
  "capacity_nominal_ah (update_temperature c current_ma dt_ms temp_c ambient_c) = capacity_nominal_ah c"
  "soc (update_temperature c current_ma dt_ms temp_c ambient_c) = soc c"
  "cycles (update_temperature c current_ma dt_ms temp_c ambient_c) = cycles c"
  "base_resistance_multiplier (update_temperature c current_ma dt_ms temp_c ambient_c) = base_resistance_multiplier c"
  "v_rc1 (update_temperature c current_ma dt_ms temp_c ambient_c) = v_rc1 c"
  "v_rc2 (update_temperature c current_ma dt_ms temp_c ambient_c) = v_rc2 c"
  "last_current_direction (update_temperature c current_ma dt_ms temp_c ambient_c) = last_current_direction c"
  "hysteresis_soc (update_temperature c current_ma dt_ms temp_c ambient_c) = hysteresis_soc c"
  "calendar_aging_time_hours (update_temperature c current_ma dt_ms temp_c ambient_c) = calendar_aging_time_hours c"
  "last_update_time_hours (update_temperature c current_ma dt_ms temp_c ambient_c) = last_update_time_hours c"
  "storage_soc (update_temperature c current_ma dt_ms temp_c ambient_c) = storage_soc c"
  "storage_temp (update_temperature c current_ma dt_ms temp_c ambient_c) = storage_temp c"
  "capacity_actual_ah (update_temperature c current_ma dt_ms temp_c ambient_c) = capacity_actual_ah c"
  "resistance_multiplier (update_temperature c current_ma dt_ms temp_c ambient_c) = resistance_multiplier c"
  by (simp_all add: update_temperature_def split: option.split)

lemma update_soc_frame [simp]:
  "capacity_nominal_ah (update_soc c current_ma dt_ms) = capacity_nominal_ah c"
  "temperature_c (update_soc c current_ma dt_ms) = temperature_c c"
  "ambient_temp_c (update_soc c current_ma dt_ms) = ambient_temp_c c"
  "cycles (update_soc c current_ma dt_ms) = cycles c"
  "base_resistance_multiplier (update_soc c current_ma dt_ms) = base_resistance_multiplier c"
  "v_rc1 (update_soc c current_ma dt_ms) = v_rc1 c"
  "v_rc2 (update_soc c current_ma dt_ms) = v_rc2 c"
  "last_current_direction (update_soc c current_ma dt_ms) = last_current_direction c"
  "hysteresis_soc (update_soc c current_ma dt_ms) = hysteresis_soc c"
  "calendar_aging_time_hours (update_soc c current_ma dt_ms) = calendar_aging_time_hours c"
  "last_update_time_hours (update_soc c current_ma dt_ms) = last_update_time_hours c"
  "storage_soc (update_soc c current_ma dt_ms) = storage_soc c"
  "storage_temp (update_soc c current_ma dt_ms) = storage_temp c"
  "capacity_actual_ah (update_soc c current_ma dt_ms) = capacity_actual_ah c"
  "resistance_multiplier (update_soc c current_ma dt_ms) = resistance_multiplier c"
  by (simp_all add: update_soc_def Let_def)

lemma update_hysteresis_frame [simp]:
  "capacity_nominal_ah (update_hysteresis c d) = capacity_nominal_ah c"
  "soc (update_hysteresis c d) = soc c"
  "temperature_c (update_hysteresis c d) = temperature_c c"
  "ambient_temp_c (update_hysteresis c d) = ambient_temp_c c"
  "cycles (update_hysteresis c d) = cycles c"
  "base_resistance_multiplier (update_hysteresis c d) = base_resistance_multiplier c"
  "v_rc1 (update_hysteresis c d) = v_rc1 c"
  "v_rc2 (update_hysteresis c d) = v_rc2 c"
  "calendar_aging_time_hours (update_hysteresis c d) = calendar_aging_time_hours c"
  "last_update_time_hours (update_hysteresis c d) = last_update_time_hours c"
  "storage_soc (update_hysteresis c d) = storage_soc c"
  "storage_temp (update_hysteresis c d) = storage_temp c"
  "capacity_actual_ah (update_hysteresis c d) = capacity_actual_ah c"
  "resistance_multiplier (update_hysteresis c d) = resistance_multiplier c"
  by (simp_all add: update_hysteresis_def)

lemma update_rc_frame [simp]:
  "capacity_nominal_ah (update_rc c current_ma dt_ms) = capacity_nominal_ah c"
  "soc (update_rc c current_ma dt_ms) = soc c"
  "temperature_c (update_rc c current_ma dt_ms) = temperature_c c"
  "ambient_temp_c (update_rc c current_ma dt_ms) = ambient_temp_c c"
  "cycles (update_rc c current_ma dt_ms) = cycles c"
  "base_resistance_multiplier (update_rc c current_ma dt_ms) = base_resistance_multiplier c"
  "last_current_direction (update_rc c current_ma dt_ms) = last_current_direction c"
  "hysteresis_soc (update_rc c current_ma dt_ms) = hysteresis_soc c"
  "calendar_aging_time_hours (update_rc c current_ma dt_ms) = calendar_aging_time_hours c"
  "last_update_time_hours (update_rc c current_ma dt_ms) = last_update_time_hours c"
  "storage_soc (update_rc c current_ma dt_ms) = storage_soc c"
  "storage_temp (update_rc c current_ma dt_ms) = storage_temp c"
  "capacity_actual_ah (update_rc c current_ma dt_ms) = capacity_actual_ah c"
  "resistance_multiplier (update_rc c current_ma dt_ms) = resistance_multiplier c"
  by (simp_all add: update_rc_def Let_def)

lemma update_calendar_aging_frame [simp]:
  "capacity_nominal_ah (update_calendar_aging c current_ma dt_ms) = capacity_nominal_ah c"
  "soc (update_calendar_aging c current_ma dt_ms) = soc c"
  "temperature_c (update_calendar_aging c current_ma dt_ms) = temperature_c c"
  "ambient_temp_c (update_calendar_aging c current_ma dt_ms) = ambient_temp_c c"
  "cycles (update_calendar_aging c current_ma dt_ms) = cycles c"
  "base_resistance_multiplier (update_calendar_aging c current_ma dt_ms) = base_resistance_multiplier c"
  "v_rc1 (update_calendar_aging c current_ma dt_ms) = v_rc1 c"
  "v_rc2 (update_calendar_aging c current_ma dt_ms) = v_rc2 c"
  "last_current_direction (update_calendar_aging c current_ma dt_ms) = last_current_direction c"
  "hysteresis_soc (update_calendar_aging c current_ma dt_ms) = hysteresis_soc c"
  by (simp_all add: update_calendar_aging_def Let_def)


lemma update_snd:
  "snd (update c current_ma dt_ms temp_c ambient_c) =
     update_calendar_aging
       (update_rc
         (update_hysteresis
           (update_soc (update_temperature c current_ma dt_ms temp_c ambient_c) current_ma dt_ms)
           (new_direction_of current_ma))
         current_ma dt_ms)
       current_ma dt_ms"
  by (simp add: update_def Let_def)

lemma update_fst:
  "fst (update c current_ma dt_ms temp_c ambient_c) =
     (terminal_voltage
        (update_rc
          (update_hysteresis
            (update_soc (update_temperature c current_ma dt_ms temp_c ambient_c) current_ma dt_ms)
            (new_direction_of current_ma))
          current_ma dt_ms)
        current_ma (new_direction_of current_ma) * 1000,
      soc (update_soc (update_temperature c current_ma dt_ms temp_c ambient_c) current_ma dt_ms) * 100)"
  by (simp add: update_def Let_def)

lemma default_cell_fields:
  "capacity_nominal_ah default_cell = 100"
  "soc default_cell = 0.5"
  "last_current_direction default_cell = 0"
  "base_resistance_multiplier default_cell = 1"
  by (simp_all add: default_cell_def LiFePO4Cell_def np_clip_def)

subsection \<open>Shared facts about the thermal model and the aging update\<close>

lemma thermal_model_range:
  "- 40 \<le> temperature_c (update_thermal_model c current_ma dt_ms ambient_c) \<and>
   temperature_c (update_thermal_model c current_ma dt_ms ambient_c) \<le> 85"
  by (simp add: update_thermal_model_def np_clip_def Let_def)

lemma half_le_mult_max: "0 \<le> (n::real) \<Longrightarrow> n \<le> n * max x (1 / 2) * 2"
proof -
  assume "0 \<le> n"
  then have "n * (1 / 2) \<le> n * max x (1 / 2)"
    by (intro mult_left_mono) simp_all
  then show ?thesis by simp
qed

lemma update_aging_capacity:
  "0 \<le> capacity_nominal_ah c \<Longrightarrow> capacity_nominal_ah c = n \<Longrightarrow>
     n \<le> capacity_actual_ah (update_aging c) * 2"
  by (simp add: update_aging_def Let_def half_le_mult_max)

lemma update_aging_resistance: "1 \<le> resistance_multiplier (update_aging c)"
  by (simp add: update_aging_def Let_def RESISTANCE_INCREASE_RATE_def)

subsection \<open>SOC clamp and voltage floor\<close>



















subsection \<open>Temperature range\<close>

text \<open>
  Claim C5, as amended. The stored temperature lies in [-40, 85] after every \<open>update\<close>
  that runs the thermal model (no forced temperature). A forced temperature is stored
  as given, without clamping.
\<close>

theorem update_temperature_range:
  "(temp_c = None \<longrightarrow>
      - 40 \<le> temperature_c (snd (update c current_ma dt_ms temp_c ambient_c)) \<and>
      temperature_c (snd (update c current_ma dt_ms temp_c ambient_c)) \<le> 85) \<and>
   (\<forall>t. temp_c = Some t \<longrightarrow>
      temperature_c (snd (update c current_ma dt_ms temp_c ambient_c)) = t)"
  using thermal_model_range [of c current_ma dt_ms ambient_c]
  by (auto simp add: update_snd update_temperature_def)

theorem update_temperature_range_witness:
  "temperature_c (snd (update default_cell (- 100000) 10000 None None)) \<le> 85 \<and>
   temperature_c (snd (update default_cell 0 100 (Some 120) None)) = 120"
  using update_temperature_range [of None default_cell "- 100000" 10000 None]
        update_temperature_range [of "Some 120" default_cell 0 100 None]
  by simp

text \<open>
  Claim C5 as stated fails: a forced temperature of 120 degrees is stored unchanged and
  lies above 85.
\<close>

theorem forced_temperature_counterexample:
  "\<not> temperature_c (snd (update default_cell 0 100 (Some 120) None)) \<le> 85"
  by (simp add: update_snd) (simp add: update_temperature_def)

subsection \<open>Direction classification\<close>

lemma update_direction:
  "last_current_direction (snd (update c current_ma dt_ms temp_c ambient_c)) =
     (if new_direction_of current_ma \<noteq> 0 then new_direction_of current_ma
      else last_current_direction c)"
  by (simp add: update_snd) (simp add: update_hysteresis_def)

lemma update_hysteresis_soc:
  "hysteresis_soc (snd (update c current_ma dt_ms temp_c ambient_c)) =
     (if new_direction_of current_ma \<noteq> 0 \<and> new_direction_of current_ma \<noteq> last_current_direction c
      then soc (snd (update c current_ma dt_ms temp_c ambient_c))
      else hysteresis_soc c)"
  by (simp add: update_snd) (simp add: update_hysteresis_def)

text \<open>
  Claim C6, as amended. The dead zone of the direction classification is 0.001 mA, not
  1 mA: a current of magnitude at most 0.001 mA is a rest step and leaves
  \<open>last_current_direction\<close> and \<open>hysteresis_soc\<close> unchanged; a current above 0.001 mA
  sets the direction to charging, a current below -0.001 mA to discharging, and
  \<open>hysteresis_soc\<close> takes the new SOC exactly when the direction changed.
\<close>

theorem direction_classification:
  "(\<bar>current_ma\<bar> \<le> 0.001 \<longrightarrow>
      last_current_direction (snd (update c current_ma dt_ms temp_c ambient_c))
        = last_current_direction c \<and>
      hysteresis_soc (snd (update c current_ma dt_ms temp_c ambient_c)) = hysteresis_soc c) \<and>
   (current_ma > 0.001 \<longrightarrow>
      last_current_direction (snd (update c current_ma dt_ms temp_c ambient_c)) = 1 \<and>
      hysteresis_soc (snd (update c current_ma dt_ms temp_c ambient_c))
        = (if last_current_direction c = 1 then hysteresis_soc c
           else soc (snd (update c current_ma dt_ms temp_c ambient_c)))) \<and>
   (current_ma < - 0.001 \<longrightarrow>
      last_current_direction (snd (update c current_ma dt_ms temp_c ambient_c)) = - 1 \<and>
      hysteresis_soc (snd (update c current_ma dt_ms temp_c ambient_c))
        = (if last_current_direction c = - 1 then hysteresis_soc c
           else soc (snd (update c current_ma dt_ms temp_c ambient_c))))"
  by (simp add: update_direction update_hysteresis_soc new_direction_of_def)


theorem direction_classification_witness:
  "last_current_direction (snd (update default_cell 0.0005 100 None None))
     = last_current_direction default_cell \<and>
   last_current_direction (snd (update default_cell 0.5 100 None None)) = 1 \<and>
   last_current_direction (snd (update default_cell (- 50000) 100 None None)) = - 1"
  using direction_classification [of "0.0005" default_cell 100 None None]
        direction_classification [of "0.5" default_cell 100 None None]
        direction_classification [of "- 50000" default_cell 100 None None]
  by simp

text \<open>
  Claim C6 as stated fails at its own example: a current of 0.5 mA, of magnitude below
  1 mA, is classified as charging and changes the direction of a fresh cell.
\<close>

theorem dead_zone_counterexample:
  "\<bar>0.5 :: real\<bar> < 1 \<and>
   last_current_direction (snd (update default_cell 0.5 100 None None))
     \<noteq> last_current_direction default_cell"
  by (simp add: update_direction default_cell_fields new_direction_of_def)

subsection \<open>Aging invariant\<close>

lemma update_aging_invariant:
  "0 \<le> capacity_nominal_ah c \<Longrightarrow> aging_invariant (update_aging c)"
  using update_aging_capacity [of c] update_aging_resistance [of c]
  by (simp add: aging_invariant_def)

lemma calendar_aging_invariant:
  assumes "0 \<le> capacity_nominal_ah c" and "aging_invariant c"
  shows "aging_invariant (update_calendar_aging c current_ma dt_ms)"
  using assms
  by (auto simp: update_calendar_aging_def Let_def aging_invariant_def
           intro!: update_aging_capacity update_aging_resistance)

text \<open>
  What a step stores for the next aging computation: the clipped SOC when the cell
  rests, the storage SOC it had otherwise, and the temperature of the step.
\<close>

lemma update_soc_range:
  "0 \<le> soc (update_soc c current_ma dt_ms) \<and> soc (update_soc c current_ma dt_ms) \<le> 1"
  by (simp add: update_soc_def np_clip_def Let_def)

lemma update_temperature_above:
  assumes "\<forall>t. forced_temp = Some t \<longrightarrow> - 175 < t"
  shows "- 175 < temperature_c (update_temperature c current_ma dt_ms forced_temp ambient)"
proof (cases forced_temp)
  case None
  then show ?thesis
    using thermal_model_range [of c current_ma dt_ms ambient]
    by (simp add: update_temperature_def)
next
  case (Some t)
  then show ?thesis using assms by (simp add: update_temperature_def)
qed

lemma calendar_aging_storage:
  "storage_soc (update_calendar_aging c current_ma dt_ms) =
     (if \<bar>current_ma\<bar> < 0.001 then soc c else storage_soc c)"
  "storage_temp (update_calendar_aging c current_ma dt_ms) = temperature_c c"
  by (simp_all add: update_calendar_aging_def Let_def)

lemma update_storage:
  assumes "0 \<le> storage_soc c" and "storage_soc c \<le> 1"
    and "\<forall>t. forced_temp = Some t \<longrightarrow> - 175 < t"
  shows "aging_inputs_real (snd (update c current_ma dt_ms forced_temp ambient))"
proof -
  let ?t = "update_temperature c current_ma dt_ms forced_temp ambient"
  have s: "storage_soc ?t = storage_soc c"
    by (simp add: update_temperature_def update_thermal_model_def Let_def split: option.split)
  show ?thesis
    using assms(1,2) s update_soc_range [of ?t current_ma dt_ms]
      update_temperature_above [OF assms(3), of c current_ma dt_ms ambient]
    by (simp add: update_snd aging_inputs_real_def calendar_aging_storage)
qed

text \<open>
  Claim C8, as amended. The aging invariant (actual capacity at least half the nominal
  capacity, resistance multiplier at least 1) holds, for every cycle count and
  calendar time,
  \<^item> after construction, when the capacity argument is not negative (no calendar time
    has accumulated then, so the calendar branch is not evaluated);
  \<^item> after \<open>set_aging\<close>, when the nominal capacity is not negative, the storage SOC
    lies in [0, 1] and the storage temperature is not -273.15 degrees;
  \<^item> after \<open>update\<close>, whether or not the step recomputes the aging, when the nominal
    capacity is positive, the invariant held before, the storage SOC lies in [0, 1]
    and a forced temperature, if one is given, is above -175 degrees (where the
    temperature-adjusted capacity that divides the charge is positive); the step
    leaves the storage SOC in [0, 1] and a storage temperature other than -273.15.
\<close>

theorem aging_invariant_holds:
  "(0 \<le> capacity_ah \<longrightarrow>
      aging_invariant
        (LiFePO4Cell capacity_ah initial_soc temp_c n_cycles ambient_c res_multiplier)) \<and>
   (0 \<le> capacity_nominal_ah c \<and> aging_inputs_real c \<longrightarrow>
      aging_invariant (set_aging c n calendar_hours)) \<and>
   (0 < capacity_nominal_ah c \<and> aging_invariant c \<and>
    0 \<le> storage_soc c \<and> storage_soc c \<le> 1 \<and>
    (\<forall>t. forced_temp = Some t \<longrightarrow> - 175 < t) \<longrightarrow>
      aging_invariant (snd (update c current_ma dt_ms forced_temp ambient)) \<and>
      aging_inputs_real (snd (update c current_ma dt_ms forced_temp ambient)))"
proof (intro conjI impI)
  assume "0 \<le> capacity_ah"
  then show "aging_invariant
        (LiFePO4Cell capacity_ah initial_soc temp_c n_cycles ambient_c res_multiplier)"
    unfolding LiFePO4Cell_def by (intro update_aging_invariant) simp
next
  assume "0 \<le> capacity_nominal_ah c \<and> aging_inputs_real c"
  then show "aging_invariant (set_aging c n calendar_hours)"
    unfolding set_aging_def Let_def
    by (intro update_aging_invariant) (simp split: option.split)
next
  assume a: "0 < capacity_nominal_ah c \<and> aging_invariant c \<and>
    0 \<le> storage_soc c \<and> storage_soc c \<le> 1 \<and>
    (\<forall>t. forced_temp = Some t \<longrightarrow> - 175 < t)"
  then show "aging_invariant (snd (update c current_ma dt_ms forced_temp ambient))"
    unfolding update_snd
    by (intro calendar_aging_invariant) (simp_all add: aging_invariant_def)
  from a show "aging_inputs_real (snd (update c current_ma dt_ms forced_temp ambient))"
    by (intro update_storage) simp_all
qed

theorem aging_invariant_holds_witness:
  "aging_invariant (LiFePO4Cell 100 0.5 25 500 25 1) \<and>
   aging_invariant (set_aging (LiFePO4Cell 100 0.5 25 500 25 1) 2000 (Some 10000)) \<and>
   aging_invariant (snd (update (LiFePO4Cell 100 0.5 25 500 25 1) (- 50000) 1000 None None)) \<and>
   aging_inputs_real (snd (update (LiFePO4Cell 100 0.5 25 500 25 1) (- 50000) 1000 None None)) \<and>
   aging_invariant (snd (update (LiFePO4Cell 100 0.5 25 500 25 1) 0 4000000 (Some 40) None))"
proof -
  let ?c = "LiFePO4Cell 100 0.5 25 500 25 1"
  have n: "capacity_nominal_ah ?c = 100" "storage_soc ?c = 0.5" "storage_temp ?c = 25"
    by (simp_all add: LiFePO4Cell_def)
  have a: "aging_invariant ?c"
    using aging_invariant_holds [of 100 "0.5" 25 500 25 1] by simp
  show ?thesis
    using a n
      aging_invariant_holds [of 100 "0.5" 25 500 25 1 ?c 2000 "Some 10000" None "- 50000" 1000 None]
      aging_invariant_holds [of 100 "0.5" 25 500 25 1 ?c 2000 "Some 10000" "Some 40" 0 4000000 None]
    by (simp add: aging_inputs_real_def)
qed

text \<open>
  Claim C8 as stated fails: the constructor stores a capacity argument of -100 without
  validation, the fade factor of a new cell is 1, and the actual capacity of -100 lies
  below half the nominal capacity, -50.
\<close>

theorem negative_capacity_counterexample:
  "capacity_nominal_ah (LiFePO4Cell (- 100) 0.5 25 0 25 1) = - 100 \<and>
   capacity_actual_ah (LiFePO4Cell (- 100) 0.5 25 0 25 1) = - 100 \<and>
   \<not> aging_invariant (LiFePO4Cell (- 100) 0.5 25 0 25 1)"
  by (simp add: LiFePO4Cell_def update_aging_def Let_def aging_invariant_def FADE_RATE_def)

section \<open>Verification of the pack model\<close>

subsection \<open>The read-out loop\<close>

lemma fold_enumerate_length:
  "length (fold (\<lambda>(i, c) vs. vs[i := g i c]) (enumerate n xs) vs) = length vs"
  by (induction xs arbitrary: n vs) simp_all

lemma fold_enumerate_nth:
  "j < length vs \<Longrightarrow>
   fold (\<lambda>(i, c) vs. vs[i := g i c]) (enumerate n xs) vs ! j =
     (if n \<le> j \<and> j < n + length xs then g j (xs ! (j - n)) else vs ! j)"
proof (induction xs arbitrary: n vs)
  case Nil
  then show ?case by auto
next
  case (Cons x xs)
  show ?case
  proof (cases "j = n")
    case True
    then show ?thesis using Cons by simp
  next
    case False
    then show ?thesis using Cons
      by (auto simp: nth_list_update nth_Cons' Suc_diff_Suc)
  qed
qed

lemma get_cell_voltages_length: "length (get_cell_voltages p) = NUM_CELLS"
  by (simp add: get_cell_voltages_def fold_enumerate_length)

lemma get_cell_voltages_nth:
  assumes "pack_wf p" "i < NUM_CELLS"
  shows "get_cell_voltages p ! i =
           (case fault_voltages p ! i of
              Some v \<Rightarrow> v
            | None \<Rightarrow> st_voltage_mv (get_state (cells p ! i)))"
  using assms
  by (simp add: get_cell_voltages_def fold_enumerate_nth pack_wf_def split: option.split)

lemma sum_list_const:
  "\<forall>i < length xs. xs ! i = (x::real) \<Longrightarrow> sum_list xs = real (length xs) * x"
proof (induction xs)
  case Nil
  then show ?case by simp
next
  case (Cons y ys)
  have "y = x" using Cons.prems by force
  moreover have "\<forall>i < length ys. ys ! i = x" using Cons.prems by force
  ultimately show ?case using Cons.IH by (simp add: algebra_simps)
qed

lemma uniform_pack_wf: "pack_wf uniform_pack"
  by (simp add: uniform_pack_def BatteryPack16S_def pack_wf_def NUM_CELLS_def Let_def)

lemma uniform_pack_cells:
  "i < 16 \<Longrightarrow> cells uniform_pack ! i = default_cell"
  by (simp add: uniform_pack_def BatteryPack16S_def NUM_CELLS_def default_cell_def np_clip_def
        Let_def del: upt_Suc)

lemma uniform_pack_faults:
  "i < 16 \<Longrightarrow> fault_voltages uniform_pack ! i = None"
  by (simp add: uniform_pack_def BatteryPack16S_def NUM_CELLS_def Let_def)

subsection \<open>Voltage read-out against terminal voltage\<close>

lemma get_ocv_direction:
  "d = 0 \<or> d = last_current_direction c \<Longrightarrow>
     get_ocv c None None (Some d) = get_ocv c None None None"
  by (auto simp: get_ocv_def Let_def)

lemma hysteresis_direction:
  "d = 0 \<or> d = last_current_direction (update_hysteresis c d)"
  by (simp add: update_hysteresis_def)

lemma get_ocv_cong:
  "soc c = soc d \<Longrightarrow> temperature_c c = temperature_c d \<Longrightarrow>
   last_current_direction c = last_current_direction d \<Longrightarrow>
   get_ocv c s t dir = get_ocv d s t dir"
  by (simp add: get_ocv_def Let_def split: option.split)

lemma get_internal_resistance_cong:
  "soc c = soc d \<Longrightarrow> temperature_c c = temperature_c d \<Longrightarrow>
   base_resistance_multiplier c = base_resistance_multiplier d \<Longrightarrow>
   resistance_multiplier c = resistance_multiplier d \<Longrightarrow>
   get_internal_resistance c s t = get_internal_resistance d s t"
  by (simp add: get_internal_resistance_def Let_def split: option.split)

lemma floor_in_mv:
  "max (ocv - i * (r / 1000) - a - b) (2.5::real) * 1000
     = max (ocv * 1000 - 1000 * (i * (r / 1000) + a + b)) 2500"
  by (simp add: max_def algebra_simps)

lemma update_voltage_vs_reading:
  fixes c current_ma dt_ms temp_c ambient_c
  defines "c' \<equiv> snd (update c current_ma dt_ms temp_c ambient_c)"
  shows "fst (fst (update c current_ma dt_ms temp_c ambient_c)) =
           max (st_voltage_mv (get_state c')
                - 1000 * (\<bar>current_ma / 1000\<bar>
                            * (get_internal_resistance
                                 (c'\<lparr>resistance_multiplier := resistance_multiplier c\<rparr>) None None / 1000)
                          + \<bar>v_rc1 c'\<bar> + \<bar>v_rc2 c'\<bar>))
               2500"
proof -
  let ?d = "new_direction_of current_ma"
  let ?c3 = "update_hysteresis
               (update_soc (update_temperature c current_ma dt_ms temp_c ambient_c) current_ma dt_ms) ?d"
  let ?c4 = "update_rc ?c3 current_ma dt_ms"
  have c': "c' = update_calendar_aging ?c4 current_ma dt_ms"
    by (simp add: c'_def update_snd)
  have "?d = 0 \<or> ?d = last_current_direction ?c4"
    using hysteresis_direction [of ?d] by simp
  then have "get_ocv ?c4 None None (Some ?d) = get_ocv ?c4 None None None"
    by (rule get_ocv_direction)
  also have "\<dots> = get_ocv c' None None None"
    unfolding c' by (rule get_ocv_cong) simp_all
  finally have ocv: "get_ocv ?c4 None None (Some ?d) = get_ocv c' None None None" .
  have r0: "get_internal_resistance ?c4 None None
              = get_internal_resistance (c'\<lparr>resistance_multiplier := resistance_multiplier c\<rparr>) None None"
    unfolding c' by (rule get_internal_resistance_cong) simp_all
  have v: "v_rc1 c' = v_rc1 ?c4" "v_rc2 c' = v_rc2 ?c4"
    unfolding c' by simp_all
  have "fst (fst (update c current_ma dt_ms temp_c ambient_c))
          = max (get_ocv ?c4 None None (Some ?d)
                 - \<bar>current_ma / 1000\<bar> * (get_internal_resistance ?c4 None None / 1000)
                 - \<bar>v_rc1 ?c4\<bar> - \<bar>v_rc2 ?c4\<bar>) 2.5 * 1000"
    by (simp add: update_fst terminal_voltage_def Let_def MIN_VOLTAGE_def)
  also have "\<dots> = max (get_ocv ?c4 None None (Some ?d) * 1000
                 - 1000 * (\<bar>current_ma / 1000\<bar> * (get_internal_resistance ?c4 None None / 1000)
                            + \<bar>v_rc1 ?c4\<bar> + \<bar>v_rc2 ?c4\<bar>)) 2500"
    by (rule floor_in_mv)
  finally show ?thesis
    by (simp only: ocv r0 v [symmetric] get_state_def cell_state.simps)
qed

text \<open>
  Claim C10. Without a voltage override, entry \<open>i\<close> of \<open>get_cell_voltages\<close> is the
  \<open>voltage_mv\<close> entry of the cell's state, which is the open-circuit voltage
  \<open>get_ocv()\<close> in mV. That reading does not depend on the RC voltages, and it is not the
  terminal voltage that \<open>update\<close> returns: the returned value is the reading of the new
  state less the ohmic drop and the two RC drops of that step, floored at 2500 mV.
\<close>

theorem cell_voltages_are_ocv:
  "(pack_wf p \<and> i < 16 \<and> fault_voltages p ! i = None \<longrightarrow>
      get_cell_voltages p ! i = st_voltage_mv (get_state (cells p ! i)) \<and>
      st_voltage_mv (get_state (cells p ! i)) = get_ocv (cells p ! i) None None None * 1000) \<and>
   st_voltage_mv (get_state (c\<lparr>v_rc1 := x, v_rc2 := y\<rparr>)) = st_voltage_mv (get_state c) \<and>
   fst (fst (update c current_ma dt_ms temp_c ambient_c)) =
     max (st_voltage_mv (get_state (snd (update c current_ma dt_ms temp_c ambient_c)))
          - 1000 * (\<bar>current_ma / 1000\<bar>
                      * (get_internal_resistance
                           ((snd (update c current_ma dt_ms temp_c ambient_c))
                              \<lparr>resistance_multiplier := resistance_multiplier c\<rparr>) None None / 1000)
                    + \<bar>v_rc1 (snd (update c current_ma dt_ms temp_c ambient_c))\<bar>
                    + \<bar>v_rc2 (snd (update c current_ma dt_ms temp_c ambient_c))\<bar>))
         2500"
proof (intro conjI impI)
  assume h: "pack_wf p \<and> i < 16 \<and> fault_voltages p ! i = None"
  then show "get_cell_voltages p ! i = st_voltage_mv (get_state (cells p ! i))"
    by (simp add: get_cell_voltages_nth NUM_CELLS_def)
  show "st_voltage_mv (get_state (cells p ! i)) = get_ocv (cells p ! i) None None None * 1000"
    by (simp add: get_state_def)
next
  have "get_ocv (c\<lparr>v_rc1 := x, v_rc2 := y\<rparr>) None None None = get_ocv c None None None"
    by (rule get_ocv_cong) simp_all
  then show "st_voltage_mv (get_state (c\<lparr>v_rc1 := x, v_rc2 := y\<rparr>)) = st_voltage_mv (get_state c)"
    by (simp add: get_state_def)
next
  show "fst (fst (update c current_ma dt_ms temp_c ambient_c)) =
     max (st_voltage_mv (get_state (snd (update c current_ma dt_ms temp_c ambient_c)))
          - 1000 * (\<bar>current_ma / 1000\<bar>
                      * (get_internal_resistance
                           ((snd (update c current_ma dt_ms temp_c ambient_c))
                              \<lparr>resistance_multiplier := resistance_multiplier c\<rparr>) None None / 1000)
                    + \<bar>v_rc1 (snd (update c current_ma dt_ms temp_c ambient_c))\<bar>
                    + \<bar>v_rc2 (snd (update c current_ma dt_ms temp_c ambient_c))\<bar>))
         2500"
    by (rule update_voltage_vs_reading)
qed

theorem cell_voltages_are_ocv_witness:
  "get_cell_voltages uniform_pack ! 5 = get_ocv default_cell None None None * 1000"
  using cell_voltages_are_ocv [of uniform_pack 5]
    uniform_pack_wf uniform_pack_cells [of 5] uniform_pack_faults [of 5]
  by simp

subsection \<open>Pack voltage\<close>

text \<open>
  Claim C2. The pack voltage is the sum of the 16 values of \<open>get_cell_voltages\<close>, each
  of which is the override when one is set and the cell's \<open>voltage_mv\<close> reading
  otherwise; with 16 cells in one and the same state and no override, the pack voltage
  is 16 times the reading of that cell.
\<close>

theorem pack_voltage_is_sum:
  "get_pack_voltage p = sum_list (get_cell_voltages p) \<and>
   length (get_cell_voltages p) = 16 \<and>
   (pack_wf p \<longrightarrow>
      (\<forall>i < 16. get_cell_voltages p ! i =
         (case fault_voltages p ! i of
            Some v \<Rightarrow> v
          | None \<Rightarrow> st_voltage_mv (get_state (cells p ! i))))) \<and>
   (pack_wf p \<and> (\<forall>i < 16. cells p ! i = c) \<and> (\<forall>i < 16. fault_voltages p ! i = None) \<longrightarrow>
      get_pack_voltage p = 16 * st_voltage_mv (get_state c))"
proof (intro conjI impI)
  show "get_pack_voltage p = sum_list (get_cell_voltages p)"
    by (simp add: get_pack_voltage_def)
  show "length (get_cell_voltages p) = 16"
    by (simp add: get_cell_voltages_length NUM_CELLS_def)
  show "\<forall>i < 16. get_cell_voltages p ! i =
         (case fault_voltages p ! i of
            Some v \<Rightarrow> v
          | None \<Rightarrow> st_voltage_mv (get_state (cells p ! i)))" if "pack_wf p"
    using that by (simp add: get_cell_voltages_nth NUM_CELLS_def)
  show "get_pack_voltage p = 16 * st_voltage_mv (get_state c)"
    if h: "pack_wf p \<and> (\<forall>i < 16. cells p ! i = c) \<and> (\<forall>i < 16. fault_voltages p ! i = None)"
  proof -
    have "\<forall>i < length (get_cell_voltages p).
            get_cell_voltages p ! i = st_voltage_mv (get_state c)"
      using h by (simp add: get_cell_voltages_length get_cell_voltages_nth NUM_CELLS_def)
    then have "sum_list (get_cell_voltages p)
                 = real (length (get_cell_voltages p)) * st_voltage_mv (get_state c)"
      by (rule sum_list_const)
    then show ?thesis
      by (simp add: get_pack_voltage_def get_cell_voltages_length NUM_CELLS_def)
  qed
qed

theorem pack_voltage_is_sum_witness:
  "get_pack_voltage uniform_pack = 16 * st_voltage_mv (get_state default_cell) \<and>
   get_cell_voltages uniform_pack ! 5 = st_voltage_mv (get_state default_cell)"
  using pack_voltage_is_sum [of uniform_pack default_cell]
    uniform_pack_wf uniform_pack_cells uniform_pack_faults
  by simp

section \<open>Verification of the AFE wrapper\<close>

subsection \<open>CRC error rate\<close>

text \<open>
  Claim C7. \<open>set_crc_error_rate(rate)\<close> raises exactly when the rate lies outside
  [0, 1]; when it returns, the stored rate is \<open>rate\<close> and nothing else has changed; when
  it raises, the instance is as it was, the stored rate included.
\<close>

theorem crc_error_rate_validation:
  "(isl (fst (set_crc_error_rate s rate)) \<longleftrightarrow> rate < 0 \<or> 1 < rate) \<and>
   (0 \<le> rate \<and> rate \<le> 1 \<longrightarrow>
      set_crc_error_rate s rate = (Inr (), s\<lparr>crc_error_rate := rate\<rparr>) \<and>
      crc_error_rate (snd (set_crc_error_rate s rate)) = rate) \<and>
   (rate < 0 \<or> 1 < rate \<longrightarrow>
      set_crc_error_rate s rate
        = (Inl (ValueError ''CRC error rate must be between 0.0 and 1.0''), s))"
  by (auto simp: set_crc_error_rate_def)

theorem crc_error_rate_validation_witness:
  "crc_error_rate (snd (set_crc_error_rate ideal_afe 0.1)) = 0.1 \<and>
   snd (set_crc_error_rate (snd (set_crc_error_rate ideal_afe 0.1)) 1.5)
     = snd (set_crc_error_rate ideal_afe 0.1)"
  using crc_error_rate_validation [of ideal_afe "0.1"]
    crc_error_rate_validation [of "snd (set_crc_error_rate ideal_afe 0.1)" "1.5"]
  by simp


subsection \<open>Reset\<close>

text \<open>
  Claim C9. \<open>reset()\<close> clears the fault masks, the stored stuck-ADC values, the
  current-sensor flag, the CRC error rate, the fault schedule and its start time, the
  status flags and both counters, and leaves the calibration values (voltage gains and
  offsets, temperature offsets, current gain and offset) and the noise levels as they
  were, in every state of the wrapper.
\<close>

theorem reset_keeps_calibration:
  "open_wire_mask (afe_reset s) = 0 \<and>
   stuck_adc_mask (afe_reset s) = 0 \<and>
   ntc_fault_mask (afe_reset s) = 0 \<and>
   stuck_adc_values (afe_reset s) = replicate (length (stuck_adc_values s)) 0 \<and>
   \<not> current_sensor_fault (afe_reset s) \<and>
   crc_error_rate (afe_reset s) = 0 \<and>
   fault_schedule (afe_reset s) = [] \<and>
   start_time_ms (afe_reset s) = None \<and>
   status_flags (afe_reset s) = 0 \<and>
   measurement_count (afe_reset s) = 0 \<and>
   crc_error_count (afe_reset s) = 0 \<and>
   voltage_gain_errors (afe_reset s) = voltage_gain_errors s \<and>
   voltage_offsets_mv (afe_reset s) = voltage_offsets_mv s \<and>
   temp_offsets_c (afe_reset s) = temp_offsets_c s \<and>
   current_gain_error (afe_reset s) = current_gain_error s \<and>
   current_offset_ma (afe_reset s) = current_offset_ma s \<and>
   voltage_noise_mv (afe_reset s) = voltage_noise_mv s \<and>
   temp_noise_c (afe_reset s) = temp_noise_c s \<and>
   current_noise_ma (afe_reset s) = current_noise_ma s"
  by (simp add: afe_reset_def map_replicate_const)

subsection \<open>Status bits and the frame of the voltage fault loop\<close>

lemma bit_push_bit_1_int: "bit (push_bit j (1::int)) m \<longleftrightarrow> m = j"
  by (simp add: bit_exp_iff)

lemma fold_or_bit:
  "bit (fold (\<lambda>i (flags::int). if P i then flags OR push_bit (pos i) 1 else flags) [0..<n] f0) m
     \<longleftrightarrow> bit f0 m \<or> (\<exists>i<n. P i \<and> m = pos i)"
proof (induction n)
  case 0
  then show ?case by simp
next
  case (Suc n)
  have "(\<exists>i<Suc n. P i \<and> m = pos i) \<longleftrightarrow> (\<exists>i<n. P i \<and> m = pos i) \<or> (P n \<and> m = pos n)"
    by (auto simp: less_Suc_eq)
  then show ?case
    using Suc.IH
    by (simp add: bit_or_iff bit_push_bit_1_int del: push_bit_of_1)
qed

lemma status_flags_bit:
  "bit (status_flags (update_status_flags s voltages temps current)) m \<longleftrightarrow>
     bit (open_wire_mask s) m
     \<or> (\<exists>i<16. voltages ! i = 0 \<and> m = i)
     \<or> (\<exists>i<16. temps ! i \<le> - 32000 \<and> m = 16 + i)
     \<or> ((current_sensor_fault s \<or> current = 0) \<and> m = 30)"
  by (simp add: update_status_flags_def Let_def fold_or_bit [where pos = "\<lambda>i. i"]
        fold_or_bit [where pos = "\<lambda>i. 16 + i"] NUM_CELLS_def INVALID_VOLTAGE_MV_def
        INVALID_CURRENT_MA_def bit_or_iff bit_push_bit_1_int del: push_bit_of_1)

lemma update_status_flags_frame:
  "update_status_flags s voltages temps current =
     s\<lparr>status_flags := status_flags (update_status_flags s voltages temps current)\<rparr>"
  by (simp add: update_status_flags_def Let_def)

lemma same_but_stuck_refl: "same_but_stuck s s"
  by (simp add: same_but_stuck_def)

lemma same_but_stuck_trans:
  "same_but_stuck s t \<Longrightarrow> same_but_stuck t u \<Longrightarrow> same_but_stuck s u"
  unfolding same_but_stuck_def by (metis afe.surjective afe.update_convs(11))


lemma same_but_stuck_fields:
  assumes "same_but_stuck s s'"
  shows "open_wire_mask s' = open_wire_mask s" "stuck_adc_mask s' = stuck_adc_mask s"
    "ntc_fault_mask s' = ntc_fault_mask s" "current_sensor_fault s' = current_sensor_fault s"
    "crc_error_rate s' = crc_error_rate s" "fault_schedule s' = fault_schedule s"
    "start_time_ms s' = start_time_ms s"
    "voltage_gain_errors s' = voltage_gain_errors s" "voltage_offsets_mv s' = voltage_offsets_mv s"
    "voltage_noise_mv s' = voltage_noise_mv s" "temp_offsets_c s' = temp_offsets_c s"
    "temp_noise_c s' = temp_noise_c s" "current_gain_error s' = current_gain_error s"
    "current_offset_ma s' = current_offset_ma s" "current_noise_ma s' = current_noise_ma s"
    "measurement_count s' = measurement_count s" "crc_error_count s' = crc_error_count s"
proof -
  have e: "s' = s\<lparr>stuck_adc_values := stuck_adc_values s'\<rparr>"
    using assms by (simp add: same_but_stuck_def)
  show "open_wire_mask s' = open_wire_mask s" by (subst e) simp
  show "stuck_adc_mask s' = stuck_adc_mask s" by (subst e) simp
  show "ntc_fault_mask s' = ntc_fault_mask s" by (subst e) simp
  show "current_sensor_fault s' = current_sensor_fault s" by (subst e) simp
  show "crc_error_rate s' = crc_error_rate s" by (subst e) simp
  show "fault_schedule s' = fault_schedule s" by (subst e) simp
  show "start_time_ms s' = start_time_ms s" by (subst e) simp
  show "voltage_gain_errors s' = voltage_gain_errors s" by (subst e) simp
  show "voltage_offsets_mv s' = voltage_offsets_mv s" by (subst e) simp
  show "voltage_noise_mv s' = voltage_noise_mv s" by (subst e) simp
  show "temp_offsets_c s' = temp_offsets_c s" by (subst e) simp
  show "temp_noise_c s' = temp_noise_c s" by (subst e) simp
  show "current_gain_error s' = current_gain_error s" by (subst e) simp
  show "current_offset_ma s' = current_offset_ma s" by (subst e) simp
  show "current_noise_ma s' = current_noise_ma s" by (subst e) simp
  show "measurement_count s' = measurement_count s" by (subst e) simp
  show "crc_error_count s' = crc_error_count s" by (subst e) simp
qed

lemma voltage_fault_step_frame:
  "same_but_stuck s (snd (voltage_fault_step i (mv, s)))"
  by (simp add: voltage_fault_step_def Let_def same_but_stuck_def)

lemma fold_voltage_fault_frame:
  "same_but_stuck s (snd (fold voltage_fault_step xs (mv, s)))"
proof (induction xs arbitrary: mv s)
  case Nil
  then show ?case by (simp add: same_but_stuck_refl)
next
  case (Cons i xs)
  obtain mv1 s1 where st: "voltage_fault_step i (mv, s) = (mv1, s1)"
    by (cases "voltage_fault_step i (mv, s)")
  have "same_but_stuck s s1"
    using voltage_fault_step_frame [of s i mv] st by simp
  then show ?case
    using Cons.IH [of s1 mv1] st by (auto intro: same_but_stuck_trans)
qed

lemma process_voltages_frame:
  "same_but_stuck s (snd (process_voltages s tv z))"
  using fold_voltage_fault_frame [of s "[0..<NUM_CELLS]" "calibrated_voltages s tv z"]
  by (simp add: process_voltages_def Let_def split_beta)

subsection \<open>What a measurement returns\<close>

lemma apply_crc_error_bit:
  "bit (status_flags (apply_crc_error s x)) m \<longleftrightarrow>
     bit (status_flags s) m \<or> (0 < crc_error_rate s \<and> x < crc_error_rate s \<and> m = 31)"
  by (auto simp: apply_crc_error_def should_inject_crc_error_def bit_or_iff bit_push_bit_1_int
           simp del: push_bit_of_1)

lemma apply_crc_error_frame:
  "apply_crc_error s x =
     s\<lparr>status_flags := status_flags (apply_crc_error s x),
       crc_error_count := crc_error_count (apply_crc_error s x)\<rparr>"
  by (simp add: apply_crc_error_def)

lemma apply_measurement_returns:
  assumes "apply_measurement s tv tt ti e = (Inr (mv, mt, mi, flags), s')"
  obtains s2 where
    "update_fault_schedule (s\<lparr>measurement_count := measurement_count s + 1\<rparr>) (env_time_ms e)
       = (Inr (), s2)"
    "mv = fst (process_voltages s2 tv (env_voltage_z e))"
    "mt = process_temperatures (snd (process_voltages s2 tv (env_voltage_z e))) tt (env_temp_z e)"
    "mi = process_current (snd (process_voltages s2 tv (env_voltage_z e))) ti (env_current_z e)"
    "same_but_stuck s2 (s'\<lparr>status_flags := status_flags s2, crc_error_count := crc_error_count s2\<rparr>)"
    "status_flags s' = flags"
    "\<And>m. bit flags m \<longleftrightarrow>
       bit (open_wire_mask s2) m
       \<or> (\<exists>i<16. mv ! i = 0 \<and> m = i)
       \<or> (\<exists>i<16. mt ! i \<le> - 32000 \<and> m = 16 + i)
       \<or> ((current_sensor_fault s2 \<or> mi = 0) \<and> m = 30)
       \<or> (0 < crc_error_rate s2 \<and> env_crc_sample e < crc_error_rate s2 \<and> m = 31)"
proof -
  define s1 where "s1 = s\<lparr>measurement_count := measurement_count s + 1\<rparr>"
  obtain r s2 where u: "update_fault_schedule s1 (env_time_ms e) = (r, s2)"
    by (cases "update_fault_schedule s1 (env_time_ms e)")
  have r: "r = Inr ()"
    using assms u by (cases r) (simp_all add: apply_measurement_def Let_def s1_def)
  define pv where "pv = process_voltages s2 tv (env_voltage_z e)"
  define s3 where "s3 = snd pv"
  define mt' where "mt' = process_temperatures s3 tt (env_temp_z e)"
  define mi' where "mi' = process_current s3 ti (env_current_z e)"
  define s4 where "s4 = update_status_flags s3 (fst pv) mt' mi'"
  define s5 where "s5 = apply_crc_error s4 (env_crc_sample e)"
  have am: "apply_measurement s tv tt ti e = (Inr (fst pv, mt', mi', status_flags s5), s5)"
    using u r
    by (simp add: apply_measurement_def Let_def split_beta s1_def pv_def s3_def mt'_def
          mi'_def s4_def s5_def)
  have f: "same_but_stuck s2 s3"
    unfolding s3_def pv_def by (rule process_voltages_frame)
  note ff = same_but_stuck_fields [OF f]
  have s4: "s4 = s3\<lparr>status_flags := status_flags s4\<rparr>"
    unfolding s4_def by (rule update_status_flags_frame)
  have s5: "s5 = s4\<lparr>status_flags := status_flags s5, crc_error_count := crc_error_count s5\<rparr>"
    unfolding s5_def by (rule apply_crc_error_frame)
  have rate4: "crc_error_rate s4 = crc_error_rate s2"
    by (subst s4) (simp add: ff)
  have mv: "mv = fst pv" and mt: "mt = mt'" and mi: "mi = mi'"
    and fl: "flags = status_flags s5" and s': "s' = s5"
    using assms am by auto
  have bits: "bit flags m \<longleftrightarrow>
       bit (open_wire_mask s2) m
       \<or> (\<exists>i<16. mv ! i = 0 \<and> m = i)
       \<or> (\<exists>i<16. mt ! i \<le> - 32000 \<and> m = 16 + i)
       \<or> ((current_sensor_fault s2 \<or> mi = 0) \<and> m = 30)
       \<or> (0 < crc_error_rate s2 \<and> env_crc_sample e < crc_error_rate s2 \<and> m = 31)" for m
    unfolding fl mv mt mi s5_def apply_crc_error_bit rate4
    unfolding s4_def status_flags_bit ff by blast
  have "s5\<lparr>status_flags := status_flags s2, crc_error_count := crc_error_count s2\<rparr>
          = s4\<lparr>status_flags := status_flags s2, crc_error_count := crc_error_count s2\<rparr>"
    by (subst s5) simp
  also have "\<dots> = s3\<lparr>status_flags := status_flags s2, crc_error_count := crc_error_count s2\<rparr>"
    by (subst s4) simp
  also have "\<dots> = s2\<lparr>stuck_adc_values := stuck_adc_values s3\<rparr>"
    by (subst f [unfolded same_but_stuck_def]) simp
  finally have frame:
    "same_but_stuck s2 (s'\<lparr>status_flags := status_flags s2, crc_error_count := crc_error_count s2\<rparr>)"
    unfolding s' by (simp add: same_but_stuck_def)
  show thesis
  proof (rule that [of s2])
    show "update_fault_schedule (s\<lparr>measurement_count := measurement_count s + 1\<rparr>) (env_time_ms e)
       = (Inr (), s2)"
      using u r by (simp add: s1_def)
    show "mv = fst (process_voltages s2 tv (env_voltage_z e))"
      by (simp add: mv pv_def)
    show "mt = process_temperatures (snd (process_voltages s2 tv (env_voltage_z e))) tt (env_temp_z e)"
      by (simp add: mt mt'_def s3_def pv_def)
    show "mi = process_current (snd (process_voltages s2 tv (env_voltage_z e))) ti (env_current_z e)"
      by (simp add: mi mi'_def s3_def pv_def)
    show "same_but_stuck s2 (s'\<lparr>status_flags := status_flags s2, crc_error_count := crc_error_count s2\<rparr>)"
      by (rule frame)
    show "status_flags s' = flags" by (simp add: fl s')
    show "\<And>m. bit flags m \<longleftrightarrow>
       bit (open_wire_mask s2) m
       \<or> (\<exists>i<16. mv ! i = 0 \<and> m = i)
       \<or> (\<exists>i<16. mt ! i \<le> - 32000 \<and> m = 16 + i)
       \<or> ((current_sensor_fault s2 \<or> mi = 0) \<and> m = 30)
       \<or> (0 < crc_error_rate s2 \<and> env_crc_sample e < crc_error_rate s2 \<and> m = 31)"
      by (rule bits)
  qed
qed

subsection \<open>Channel-wise results\<close>

lemma update_fault_schedule_empty:
  "fault_schedule s = [] \<Longrightarrow> update_fault_schedule s now = (Inr (), s)"
  by (simp add: update_fault_schedule_def Let_def)

lemma fold_set_nth:
  "j < length xs \<Longrightarrow>
   fold (\<lambda>i ys. if P i then ys[i := c] else ys) [0..<n] xs ! j
     = (if j < n \<and> P j then c else xs ! j)"
  and fold_set_length:
  "length (fold (\<lambda>i ys. if P i then ys[i := c] else ys) [0..<n] xs) = length xs"
  by (induction n) (auto simp: nth_list_update less_Suc_eq)

lemma bit_mask_test: "(k::int) AND push_bit i 1 \<noteq> 0 \<longleftrightarrow> bit k i"
  by (simp add: bit_iff_and_push_bit_not_eq_0 del: push_bit_of_1)

lemma process_temperatures_nth:
  assumes "i < 16"
  shows "process_temperatures s tt z ! i =
           astype_int16
             (np_round ((if bit (ntc_fault_mask s) i then INVALID_TEMP_C / 100
                         else tt ! i + temp_offsets_c s ! i + (0 + temp_noise_c s * z ! i))
                        / TEMPERATURE_RESOLUTION_C)
              * TEMPERATURE_RESOLUTION_C * 100)"
  using assms
  by (simp add: process_temperatures_def Let_def NUM_CELLS_def fold_set_nth fold_set_length
        bit_mask_test del: push_bit_of_1)

lemma np_round_of_int: "np_round (of_int k) = of_int k"
  by (simp add: np_round_def)

lemma astype_int16_2500: "astype_int16 2500 = 2500"
  by (simp add: astype_int16_def signed_take_bit_eq_if_positive bit_iff_odd take_bit_eq_mod)

lemma high_bits_clear:
  assumes "0 \<le> (k::int)" "k < 2 ^ 16" "16 \<le> m"
  shows "\<not> bit k m"
proof -
  have "(2::int) ^ 16 \<le> 2 ^ m" using assms(3) by (intro power_increasing) simp_all
  then have "k < 2 ^ m" using assms(2) by linarith
  then have "k div 2 ^ m = 0" using assms(1) by simp
  then show ?thesis by (simp add: bit_iff_odd)
qed


lemma apply_measurement_idle:
  assumes "fault_schedule s = []"
  obtains mv mt mi flags s' where
    "apply_measurement s tv tt ti e = (Inr (mv, mt, mi, flags), s')"
proof -
  let ?s1 = "s\<lparr>measurement_count := measurement_count s + 1\<rparr>"
  have "update_fault_schedule ?s1 (env_time_ms e) = (Inr (), ?s1)"
    using assms by (intro update_fault_schedule_empty) simp
  then have "\<exists>mv mt mi flags s'. apply_measurement s tv tt ti e = (Inr (mv, mt, mi, flags), s')"
    by (simp add: apply_measurement_def Let_def split_beta)
  then show thesis using that by blast
qed

lemma ideal_afe_fields:
  "fault_schedule ideal_afe = []" "open_wire_mask ideal_afe = 0" "stuck_adc_mask ideal_afe = 0"
  "ntc_fault_mask ideal_afe = 0" "\<not> current_sensor_fault ideal_afe"
  "temp_noise_c ideal_afe = 0" "voltage_noise_mv ideal_afe = 0"
  "temp_offsets_c ideal_afe = replicate 16 0"
  "voltage_offsets_mv ideal_afe = replicate 16 0"
  "voltage_gain_errors ideal_afe = replicate 16 1"
  by (simp_all add: ideal_afe_def AFEWrapper_def)

lemma returned_parts:
  "r = (Inr (mv, mt, mi, flags), s') \<Longrightarrow>
     returned r = Some (mv, mt, mi, flags) \<and> returned_voltages r = mv \<and>
     returned_temps r = mt \<and> returned_flags r = flags"
  by (simp add: returned_def returned_voltages_def returned_temps_def returned_flags_def)

lemma apply_measurement_quiet:
  assumes "fault_schedule s = []"
  obtains mv mt mi flags s' where
    "apply_measurement s tv tt ti e = (Inr (mv, mt, mi, flags), s')"
    "same_but_stuck (s\<lparr>measurement_count := measurement_count s + 1\<rparr>)
       (s'\<lparr>status_flags := status_flags s, crc_error_count := crc_error_count s\<rparr>)"
    "mv = fst (process_voltages (s\<lparr>measurement_count := measurement_count s + 1\<rparr>) tv
                 (env_voltage_z e))"
    "\<And>i. i < 16 \<Longrightarrow> mt ! i =
       astype_int16
         (np_round ((if bit (ntc_fault_mask s) i then INVALID_TEMP_C / 100
                     else tt ! i + temp_offsets_c s ! i + (0 + temp_noise_c s * env_temp_z e ! i))
                    / TEMPERATURE_RESOLUTION_C)
          * TEMPERATURE_RESOLUTION_C * 100)"
    "\<And>m. bit flags m \<longleftrightarrow>
       bit (open_wire_mask s) m
       \<or> (\<exists>i<16. mv ! i = 0 \<and> m = i)
       \<or> (\<exists>i<16. mt ! i \<le> - 32000 \<and> m = 16 + i)
       \<or> ((current_sensor_fault s \<or> mi = 0) \<and> m = 30)
       \<or> (0 < crc_error_rate s \<and> env_crc_sample e < crc_error_rate s \<and> m = 31)"
proof -
  define s1 where "s1 = s\<lparr>measurement_count := measurement_count s + 1\<rparr>"
  obtain mv mt mi flags s' where
    am: "apply_measurement s tv tt ti e = (Inr (mv, mt, mi, flags), s')"
    using assms by (rule apply_measurement_idle)
  have u: "update_fault_schedule s1 (env_time_ms e) = (Inr (), s1)"
    using assms by (intro update_fault_schedule_empty) (simp add: s1_def)
  show thesis
  proof (rule apply_measurement_returns [OF am])
    fix s2
    assume u2: "update_fault_schedule (s\<lparr>measurement_count := measurement_count s + 1\<rparr>)
                  (env_time_ms e) = (Inr (), s2)"
      and mv: "mv = fst (process_voltages s2 tv (env_voltage_z e))"
      and mt: "mt = process_temperatures (snd (process_voltages s2 tv (env_voltage_z e))) tt
                      (env_temp_z e)"
      and frame: "same_but_stuck s2
                   (s'\<lparr>status_flags := status_flags s2, crc_error_count := crc_error_count s2\<rparr>)"
      and bits: "\<And>m. bit flags m \<longleftrightarrow>
       bit (open_wire_mask s2) m
       \<or> (\<exists>i<16. mv ! i = 0 \<and> m = i)
       \<or> (\<exists>i<16. mt ! i \<le> - 32000 \<and> m = 16 + i)
       \<or> ((current_sensor_fault s2 \<or> mi = 0) \<and> m = 30)
       \<or> (0 < crc_error_rate s2 \<and> env_crc_sample e < crc_error_rate s2 \<and> m = 31)"
    have s2: "s2 = s1" using u u2 by (simp add: s1_def)
    note pf = same_but_stuck_fields [OF process_voltages_frame [of s1 tv "env_voltage_z e"]]
    show thesis
    proof (rule that [OF am])
      show "same_but_stuck (s\<lparr>measurement_count := measurement_count s + 1\<rparr>)
              (s'\<lparr>status_flags := status_flags s, crc_error_count := crc_error_count s\<rparr>)"
        using frame by (simp add: s2 s1_def)
      show "mv = fst (process_voltages (s\<lparr>measurement_count := measurement_count s + 1\<rparr>) tv
                 (env_voltage_z e))"
        using mv by (simp add: s2 s1_def)
      show "mt ! i =
         astype_int16
         (np_round ((if bit (ntc_fault_mask s) i then INVALID_TEMP_C / 100
                     else tt ! i + temp_offsets_c s ! i + (0 + temp_noise_c s * env_temp_z e ! i))
                    / TEMPERATURE_RESOLUTION_C)
          * TEMPERATURE_RESOLUTION_C * 100)" if "i < 16" for i
        unfolding mt s2 using that
        by (simp only: process_temperatures_nth pf) (simp add: s1_def)
      show "bit flags m \<longleftrightarrow>
       bit (open_wire_mask s) m
       \<or> (\<exists>i<16. mv ! i = 0 \<and> m = i)
       \<or> (\<exists>i<16. mt ! i \<le> - 32000 \<and> m = 16 + i)
       \<or> ((current_sensor_fault s \<or> mi = 0) \<and> m = 30)
       \<or> (0 < crc_error_rate s \<and> env_crc_sample e < crc_error_rate s \<and> m = 31)" for m
        using bits [of m] by (simp add: s2 s1_def)
    qed
  qed
qed

lemma quiet_temperature_value:
  "astype_int16
     (np_round ((25 + (replicate 16 (0::real)) ! i + (0 + 0 * z)) / TEMPERATURE_RESOLUTION_C)
      * TEMPERATURE_RESOLUTION_C * 100) = 2500" if "i < 16"
proof -
  have "np_round (of_int 250) = of_int 250" by (rule np_round_of_int)
  then have "np_round 250 = 250" by simp
  then show ?thesis
    using that by (simp add: TEMPERATURE_RESOLUTION_C_def astype_int16_2500)
qed


subsection \<open>One channel of the voltage fault loop\<close>

lemma voltage_fault_step_length:
  "length (fst (voltage_fault_step j (mv, s))) = length mv"
  by (simp add: voltage_fault_step_def Let_def)

lemma voltage_fault_step_other:
  "j \<noteq> i \<Longrightarrow> fst (voltage_fault_step j (mv, s)) ! i = mv ! i"
  by (simp add: voltage_fault_step_def Let_def)

lemma voltage_fault_step_at:
  "i < length mv \<Longrightarrow>
   fst (voltage_fault_step i (mv, s)) ! i =
     (if bit (open_wire_mask s) i then 0
      else if bit (stuck_adc_mask s) i \<and> stuck_adc_values s ! i \<noteq> 0 then stuck_adc_values s ! i
      else mv ! i)"
  by (simp add: voltage_fault_step_def Let_def bit_mask_test INVALID_VOLTAGE_MV_def
        del: push_bit_of_1)

lemma fold_voltage_fault_other:
  "i \<notin> set xs \<Longrightarrow>
     fst (fold voltage_fault_step xs (mv, s)) ! i = mv ! i \<and>
     length (fst (fold voltage_fault_step xs (mv, s))) = length mv"
proof (induction xs arbitrary: mv s)
  case Nil
  then show ?case by simp
next
  case (Cons j xs)
  obtain mv1 s1 where st: "voltage_fault_step j (mv, s) = (mv1, s1)"
    by (cases "voltage_fault_step j (mv, s)")
  have "mv1 ! i = mv ! i" "length mv1 = length mv"
    using voltage_fault_step_other [of j i mv s] voltage_fault_step_length [of j mv s]
      st Cons.prems by simp_all
  then show ?case
    using Cons.IH [of mv1 s1] Cons.prems st by simp
qed

lemma fold_voltage_fault_at:
  assumes "i < 16" "length mv = 16"
    and "\<not> (bit (stuck_adc_mask s) i \<and> \<not> bit (open_wire_mask s) i)"
  shows "fst (fold voltage_fault_step [0..<16] (mv, s)) ! i =
           (if bit (open_wire_mask s) i then 0 else mv ! i)"
    and "length (fst (fold voltage_fault_step [0..<16] (mv, s))) = 16"
proof -
  have "[0..<i + (16 - i)] = [0..<i] @ [i..<i + (16 - i)]"
    by (rule upt_add_eq_append) simp
  moreover have "[i..<16] = i # [Suc i..<16]"
    using assms(1) by (rule upt_conv_Cons)
  ultimately have split: "[0..<16] = [0..<i] @ i # [Suc i..<16]"
    using assms(1) by simp
  obtain mv1 s1 where p: "fold voltage_fault_step [0..<i] (mv, s) = (mv1, s1)"
    by (cases "fold voltage_fault_step [0..<i] (mv, s)")
  obtain mv2 s2 where q: "voltage_fault_step i (mv1, s1) = (mv2, s2)"
    by (cases "voltage_fault_step i (mv1, s1)")
  have f: "fold voltage_fault_step [0..<16] (mv, s)
             = fold voltage_fault_step [Suc i..<16] (mv2, s2)"
    by (subst split) (simp add: p q)
  have 1: "mv1 ! i = mv ! i" "length mv1 = 16"
    using fold_voltage_fault_other [of i "[0..<i]" mv s] p assms(2) by simp_all
  have fr: "same_but_stuck s s1"
    using fold_voltage_fault_frame [of s "[0..<i]" mv] p by simp
  note m = same_but_stuck_fields(1,2) [OF fr]
  have 2: "mv2 ! i = (if bit (open_wire_mask s) i then 0 else mv ! i)" "length mv2 = 16"
    using voltage_fault_step_at [of i mv1 s1] voltage_fault_step_length [of i mv1 s1]
      q 1 assms(1,3) by (auto simp: m)
  have 3: "fst (fold voltage_fault_step [Suc i..<16] (mv2, s2)) ! i = mv2 ! i"
    "length (fst (fold voltage_fault_step [Suc i..<16] (mv2, s2))) = length mv2"
    using fold_voltage_fault_other [of i "[Suc i..<16]" mv2 s2] by simp_all
  show "fst (fold voltage_fault_step [0..<16] (mv, s)) ! i =
           (if bit (open_wire_mask s) i then 0 else mv ! i)"
    unfolding f using 2 3 by simp
  show "length (fst (fold voltage_fault_step [0..<16] (mv, s))) = 16"
    unfolding f using 2 3 by simp
qed

lemma quantize_voltage_0: "quantize_voltage 0 = 0"
proof -
  have "np_round (of_int 0) = of_int 0" by (rule np_round_of_int)
  then show ?thesis by (simp add: quantize_voltage_def np_clip_def)
qed

lemma process_voltages_nth:
  assumes "i < 16" "\<not> (bit (stuck_adc_mask s) i \<and> \<not> bit (open_wire_mask s) i)"
  shows "fst (process_voltages s tv z) ! i =
           (if bit (open_wire_mask s) i then 0
            else quantize_voltage (calibrated_voltages s tv z ! i))"
proof -
  have l: "length (calibrated_voltages s tv z) = 16"
    by (simp add: calibrated_voltages_def NUM_CELLS_def)
  show ?thesis
    using fold_voltage_fault_at [OF assms(1) l assms(2)] assms(1)
    by (simp add: process_voltages_def NUM_CELLS_def Let_def split_beta quantize_voltage_0)
qed

subsection \<open>Open wire on channel 5\<close>

lemma calibrated_voltages_nth:
  "i < 16 \<Longrightarrow> calibrated_voltages s tv z ! i =
     tv ! i * voltage_gain_errors s ! i + voltage_offsets_mv s ! i
       + (0 + voltage_noise_mv s * z ! i)"
  by (simp add: calibrated_voltages_def NUM_CELLS_def)

lemma inject_open_wire:
  "inject_fault s (Enum OPEN_WIRE) (Some m) None now
     = (Inr (), s\<lparr>open_wire_mask := open_wire_mask s OR m\<rparr>)"
  by (simp add: inject_fault_def coerce_fault_type_def inject_fault_mask_def)

lemma clear_open_wire:
  "clear_fault s (Enum OPEN_WIRE) (Some m)
     = (Inr (), s\<lparr>open_wire_mask := open_wire_mask s AND NOT m\<rparr>)"
  by (simp add: clear_fault_def coerce_fault_type_def)

lemma bit_5_set: "bit ((k::int) OR push_bit 5 1) 5"
  by (simp add: bit_or_iff bit_push_bit_1_int del: push_bit_of_1)

lemma bit_5_cleared: "\<not> bit ((k::int) AND NOT (push_bit 5 1)) 5"
  by (simp add: bit_and_iff bit_not_iff bit_push_bit_1_int del: push_bit_of_1)

lemma same_voltage_setup_refl: "same_voltage_setup s s"
  by (simp add: same_voltage_setup_def)

lemma same_voltage_setup_trans:
  "same_voltage_setup s t \<Longrightarrow> same_voltage_setup t u \<Longrightarrow> same_voltage_setup s u"
  by (simp add: same_voltage_setup_def)

lemma measurement_channel_5:
  assumes "fault_schedule t = []"
    and "\<not> (bit (stuck_adc_mask t) 5 \<and> \<not> bit (open_wire_mask t) 5)"
  obtains mv mt mi flags t' where
    "apply_measurement t tv tt ti e = (Inr (mv, mt, mi, flags), t')"
    "mv ! 5 = (if bit (open_wire_mask t) 5 then 0
               else quantize_voltage
                      (tv ! 5 * voltage_gain_errors t ! 5 + voltage_offsets_mv t ! 5
                         + (0 + voltage_noise_mv t * env_voltage_z e ! 5)))"
    "bit flags 5 \<longleftrightarrow> bit (open_wire_mask t) 5 \<or> mv ! 5 = 0"
    "fault_schedule t' = []" "open_wire_mask t' = open_wire_mask t"
    "same_voltage_setup t t'"
proof (rule apply_measurement_quiet [OF assms(1), of tv tt ti e])
  fix mv mt mi flags t'
  let ?t1 = "t\<lparr>measurement_count := measurement_count t + 1\<rparr>"
  assume am: "apply_measurement t tv tt ti e = (Inr (mv, mt, mi, flags), t')"
    and frame: "same_but_stuck ?t1
       (t'\<lparr>status_flags := status_flags t, crc_error_count := crc_error_count t\<rparr>)"
    and mv: "mv = fst (process_voltages ?t1 tv (env_voltage_z e))"
    and bits: "\<And>m. bit flags m \<longleftrightarrow>
       bit (open_wire_mask t) m
       \<or> (\<exists>i<16. mv ! i = 0 \<and> m = i)
       \<or> (\<exists>i<16. mt ! i \<le> - 32000 \<and> m = 16 + i)
       \<or> ((current_sensor_fault t \<or> mi = 0) \<and> m = 30)
       \<or> (0 < crc_error_rate t \<and> env_crc_sample e < crc_error_rate t \<and> m = 31)"
  note ff = same_but_stuck_fields [OF frame]
  have v: "mv ! 5 = (if bit (open_wire_mask t) 5 then 0
               else quantize_voltage
                      (tv ! 5 * voltage_gain_errors t ! 5 + voltage_offsets_mv t ! 5
                         + (0 + voltage_noise_mv t * env_voltage_z e ! 5)))"
    unfolding mv using assms(2)
    by (subst process_voltages_nth) (simp_all add: calibrated_voltages_nth)
  have "(\<exists>i<16. mv ! i = 0 \<and> (5::nat) = i) \<longleftrightarrow> mv ! 5 = 0" by auto
  then have b: "bit flags 5 \<longleftrightarrow> bit (open_wire_mask t) 5 \<or> mv ! 5 = 0"
    by (simp add: bits)
  show thesis
  proof (rule that [OF am v b])
    show "fault_schedule t' = []" using ff(6) assms(1) by simp
    show "open_wire_mask t' = open_wire_mask t" using ff(1) by simp
    show "same_voltage_setup t t'"
      using ff(2,8,9,10) by (simp add: same_voltage_setup_def)
  qed
qed

lemma open_wire_repeat:
  assumes "fault_schedule t = []" "bit (open_wire_mask t) 5"
  shows "(\<forall>r \<in> set (fst (apply_measurements t inputs)).
            \<exists>mv mt mi flags. r = Inr (mv, mt, mi, flags) \<and> mv ! 5 = 0 \<and> bit flags 5) \<and>
         fault_schedule (snd (apply_measurements t inputs)) = [] \<and>
         same_voltage_setup t (snd (apply_measurements t inputs))"
  using assms
proof (induction inputs arbitrary: t)
  case Nil
  then show ?case by (simp add: same_voltage_setup_refl)
next
  case (Cons x inputs)
  obtain tv tt ti e where x: "x = (tv, tt, ti, e)" by (cases x)
  show ?case
  proof (rule measurement_channel_5 [of t tv tt ti e])
    show "fault_schedule t = []" by (rule Cons.prems)
    show "\<not> (bit (stuck_adc_mask t) 5 \<and> \<not> bit (open_wire_mask t) 5)"
      using Cons.prems by simp
  next
    fix mv mt mi flags t'
    assume am: "apply_measurement t tv tt ti e = (Inr (mv, mt, mi, flags), t')"
      and v: "mv ! 5 = (if bit (open_wire_mask t) 5 then 0
               else quantize_voltage
                      (tv ! 5 * voltage_gain_errors t ! 5 + voltage_offsets_mv t ! 5
                         + (0 + voltage_noise_mv t * env_voltage_z e ! 5)))"
      and b: "bit flags 5 \<longleftrightarrow> bit (open_wire_mask t) 5 \<or> mv ! 5 = 0"
      and sch: "fault_schedule t' = []" and ow: "open_wire_mask t' = open_wire_mask t"
      and sv: "same_voltage_setup t t'"
    have ih: "(\<forall>r \<in> set (fst (apply_measurements t' inputs)).
            \<exists>mv mt mi flags. r = Inr (mv, mt, mi, flags) \<and> mv ! 5 = 0 \<and> bit flags 5) \<and>
         fault_schedule (snd (apply_measurements t' inputs)) = [] \<and>
         same_voltage_setup t' (snd (apply_measurements t' inputs))"
      using Cons.IH [of t'] sch ow Cons.prems by simp
    have "mv ! 5 = 0" "bit flags 5" using v b Cons.prems by simp_all
    then show ?thesis
      using ih am sv by (auto simp: x split_beta intro: same_voltage_setup_trans)
  qed
qed

lemma quantize_voltage_3200: "quantize_voltage 3200 = 3200"
proof -
  have "np_round (of_int 32000) = of_int 32000" by (rule np_round_of_int)
  then have "np_round 32000 = 32000" by simp
  then show ?thesis
    by (simp add: quantize_voltage_def np_clip_def VOLTAGE_RESOLUTION_MV_def)
qed


subsection \<open>NTC status bits\<close>

text \<open>
  Claim C4, as amended. With the open-wire mask within 16 bits, as the data model has
  it, a returned status word has bit \<open>16 + c\<close> set exactly when the measured temperature
  of cell \<open>c\<close> is at most -32000 centi-degrees, for the cells 0 to 13. Bit 30 is shared:
  it is set exactly when the temperature of cell 14 is at most -32000, or the
  current-sensor fault is active, or the measured current is 0.0. Bit 31 is shared: it is
  set exactly when the temperature of cell 15 is at most -32000, or the CRC trial of the
  call succeeded.
\<close>

theorem ntc_status_bits:
  assumes "apply_measurement s tv tt ti e = (Inr (mv, mt, mi, flags), s')"
    and "0 \<le> open_wire_mask s'" and "open_wire_mask s' < 2 ^ 16"
  shows "(\<forall>c<14. bit flags (16 + c) \<longleftrightarrow> mt ! c \<le> - 32000) \<and>
         (bit flags 30 \<longleftrightarrow> mt ! 14 \<le> - 32000 \<or> current_sensor_fault s' \<or> mi = 0) \<and>
         (bit flags 31 \<longleftrightarrow>
            mt ! 15 \<le> - 32000 \<or>
            (0 < crc_error_rate s' \<and> env_crc_sample e < crc_error_rate s'))"
proof (rule apply_measurement_returns [OF assms(1)])
  fix s2
  assume frame: "same_but_stuck s2
                   (s'\<lparr>status_flags := status_flags s2, crc_error_count := crc_error_count s2\<rparr>)"
    and bits: "\<And>m. bit flags m \<longleftrightarrow>
       bit (open_wire_mask s2) m
       \<or> (\<exists>i<16. mv ! i = 0 \<and> m = i)
       \<or> (\<exists>i<16. mt ! i \<le> - 32000 \<and> m = 16 + i)
       \<or> ((current_sensor_fault s2 \<or> mi = 0) \<and> m = 30)
       \<or> (0 < crc_error_rate s2 \<and> env_crc_sample e < crc_error_rate s2 \<and> m = 31)"
  have f: "open_wire_mask s' = open_wire_mask s2" "current_sensor_fault s' = current_sensor_fault s2"
    "crc_error_rate s' = crc_error_rate s2"
    using same_but_stuck_fields(1,4,5) [OF frame] by simp_all
  have hi: "\<not> bit (open_wire_mask s2) m" if "16 \<le> m" for m
    using high_bits_clear [of "open_wire_mask s2" m] assms(2,3) that by (simp add: f)
  have a: "bit flags (16 + c) \<longleftrightarrow> mt ! c \<le> - 32000" if "c < 14" for c
    using that by (simp add: bits hi)
  have b: "bit flags 30 \<longleftrightarrow> mt ! 14 \<le> - 32000 \<or> current_sensor_fault s' \<or> mi = 0"
  proof -
    have "(\<exists>i<16. mt ! i \<le> - 32000 \<and> (30::nat) = 16 + i) \<longleftrightarrow> mt ! 14 \<le> - 32000"
      by auto
    then show ?thesis by (simp add: bits hi f)
  qed
  have c: "bit flags 31 \<longleftrightarrow>
            mt ! 15 \<le> - 32000 \<or> (0 < crc_error_rate s' \<and> env_crc_sample e < crc_error_rate s')"
  proof -
    have "(\<exists>i<16. mt ! i \<le> - 32000 \<and> (31::nat) = 16 + i) \<longleftrightarrow> mt ! 15 \<le> - 32000"
      by auto
    then show ?thesis by (simp add: bits hi f)
  qed
  show ?thesis using a b c by blast
qed

theorem ntc_status_bits_witness:
  "returned (apply_measurement ideal_afe (replicate 16 3200) (replicate 16 25) 50000 quiet_env)
     \<noteq> None \<and>
   \<not> bit (returned_flags
            (apply_measurement ideal_afe (replicate 16 3200) (replicate 16 25) 50000 quiet_env))
          (16 + 3) \<and>
   \<not> returned_temps
        (apply_measurement ideal_afe (replicate 16 3200) (replicate 16 25) 50000 quiet_env) ! 3
       \<le> - 32000"
proof (rule apply_measurement_quiet
         [of ideal_afe "replicate 16 3200" "replicate 16 25" 50000 quiet_env])
  show "fault_schedule ideal_afe = []" by (rule ideal_afe_fields)
next
  fix mv mt mi flags s'
  assume am: "apply_measurement ideal_afe (replicate 16 3200) (replicate 16 25) 50000 quiet_env
                = (Inr (mv, mt, mi, flags), s')"
    and frame: "same_but_stuck (ideal_afe\<lparr>measurement_count := measurement_count ideal_afe + 1\<rparr>)
       (s'\<lparr>status_flags := status_flags ideal_afe, crc_error_count := crc_error_count ideal_afe\<rparr>)"
    and mt: "\<And>i. i < 16 \<Longrightarrow> mt ! i =
       astype_int16
         (np_round ((if bit (ntc_fault_mask ideal_afe) i then INVALID_TEMP_C / 100
                     else replicate 16 25 ! i + temp_offsets_c ideal_afe ! i
                          + (0 + temp_noise_c ideal_afe * env_temp_z quiet_env ! i))
                    / TEMPERATURE_RESOLUTION_C)
          * TEMPERATURE_RESOLUTION_C * 100)"
  have m: "open_wire_mask s' = 0"
    using same_but_stuck_fields(1) [OF frame] by (simp add: ideal_afe_fields)
  have t3: "mt ! 3 = 2500"
    using mt [of 3] quiet_temperature_value [of 3] by (simp add: ideal_afe_fields)
  have "\<forall>c<14. bit flags (16 + c) \<longleftrightarrow> mt ! c \<le> - 32000"
    using ntc_status_bits [OF am] m by simp
  from spec [OF this, of 3] have "bit flags (16 + 3) \<longleftrightarrow> mt ! 3 \<le> - 32000"
    by simp
  then show ?thesis
    using t3 returned_parts [OF am] by simp
qed

text \<open>
  Claim C4 as stated fails for cell 14: with the current-sensor fault injected and all
  temperatures at 25 degrees, bit 30 of the status word is set although the measured
  temperature of cell 14 is 2500 centi-degrees.
\<close>

theorem current_sensor_bit_counterexample:
  "returned (apply_measurement
               (snd (inject_fault ideal_afe (Enum CURRENT_SENSOR_FAULT) None None 0))
               (replicate 16 3200) (replicate 16 25) 50000 quiet_env) \<noteq> None \<and>
   bit (returned_flags
          (apply_measurement
             (snd (inject_fault ideal_afe (Enum CURRENT_SENSOR_FAULT) None None 0))
             (replicate 16 3200) (replicate 16 25) 50000 quiet_env))
       (16 + 14) \<and>
   \<not> returned_temps
        (apply_measurement
           (snd (inject_fault ideal_afe (Enum CURRENT_SENSOR_FAULT) None None 0))
           (replicate 16 3200) (replicate 16 25) 50000 quiet_env) ! 14
       \<le> - 32000"
proof -
  define s where "s = snd (inject_fault ideal_afe (Enum CURRENT_SENSOR_FAULT) None None 0)"
  have s: "s = ideal_afe\<lparr>current_sensor_fault := True\<rparr>"
    by (simp add: s_def inject_fault_def coerce_fault_type_def inject_fault_mask_def)
  have sf: "fault_schedule s = []" "ntc_fault_mask s = 0" "temp_noise_c s = 0"
    "temp_offsets_c s = replicate 16 0" "current_sensor_fault s"
    by (simp_all add: s ideal_afe_fields)
  have "returned (apply_measurement s (replicate 16 3200) (replicate 16 25) 50000 quiet_env)
          \<noteq> None \<and>
        bit (returned_flags
               (apply_measurement s (replicate 16 3200) (replicate 16 25) 50000 quiet_env))
            (16 + 14) \<and>
        \<not> returned_temps
             (apply_measurement s (replicate 16 3200) (replicate 16 25) 50000 quiet_env) ! 14
            \<le> - 32000"
  proof (rule apply_measurement_quiet
           [of s "replicate 16 3200" "replicate 16 25" 50000 quiet_env])
    show "fault_schedule s = []" by (rule sf)
  next
    fix mv mt mi flags s'
    assume am: "apply_measurement s (replicate 16 3200) (replicate 16 25) 50000 quiet_env
                  = (Inr (mv, mt, mi, flags), s')"
      and mt: "\<And>i. i < 16 \<Longrightarrow> mt ! i =
         astype_int16
           (np_round ((if bit (ntc_fault_mask s) i then INVALID_TEMP_C / 100
                       else replicate 16 25 ! i + temp_offsets_c s ! i
                            + (0 + temp_noise_c s * env_temp_z quiet_env ! i))
                      / TEMPERATURE_RESOLUTION_C)
            * TEMPERATURE_RESOLUTION_C * 100)"
      and bits: "\<And>m. bit flags m \<longleftrightarrow>
         bit (open_wire_mask s) m
         \<or> (\<exists>i<16. mv ! i = 0 \<and> m = i)
         \<or> (\<exists>i<16. mt ! i \<le> - 32000 \<and> m = 16 + i)
         \<or> ((current_sensor_fault s \<or> mi = 0) \<and> m = 30)
         \<or> (0 < crc_error_rate s \<and> env_crc_sample quiet_env < crc_error_rate s \<and> m = 31)"
    have t14: "mt ! 14 = 2500"
      using mt [of 14] quiet_temperature_value [of 14] by (simp add: sf)
    have "bit flags 30" using bits [of 30] sf(5) by simp
    then show ?thesis
      using t14 returned_parts [OF am] by simp
  qed
  then show ?thesis by (simp add: s_def)
qed

subsection \<open>Open-wire round trip\<close>

text \<open>
  Claim C3, as amended. With no fault scheduled, \<open>inject_fault(OpenWire, 1 << 5)\<close>
  succeeds, and every later \<open>apply_measurement\<close> returns 0.0 for channel 5 and a status
  word with bit 5 set. After \<open>clear_fault(OpenWire, 1 << 5)\<close>, and with channel 5 not
  under a stuck-ADC fault, \<open>apply_measurement\<close> returns for channel 5 the calibrated,
  noised, quantized and clipped voltage, and bit 5 of the status word is set exactly when
  that voltage is 0.0: it is clear for every nonzero reading.
\<close>

theorem open_wire_round_trip:
  fixes s :: afe and now :: real
    and inputs :: "(real list \<times> real list \<times> real \<times> env) list"
  defines "s1 \<equiv> snd (inject_fault s (Enum OPEN_WIRE) (Some (push_bit 5 1)) None now)"
  defines "s2 \<equiv> snd (apply_measurements s1 inputs)"
  defines "s3 \<equiv> snd (clear_fault s2 (Enum OPEN_WIRE) (Some (push_bit 5 1)))"
  assumes "fault_schedule s = []"
  shows "fst (inject_fault s (Enum OPEN_WIRE) (Some (push_bit 5 1)) None now) = Inr () \<and>
         (\<forall>r \<in> set (fst (apply_measurements s1 inputs)).
            \<exists>mv mt mi flags. r = Inr (mv, mt, mi, flags) \<and> mv ! 5 = 0 \<and> bit flags 5) \<and>
         fst (clear_fault s2 (Enum OPEN_WIRE) (Some (push_bit 5 1))) = Inr () \<and>
         (\<not> bit (stuck_adc_mask s) 5 \<longrightarrow>
            (\<exists>mv mt mi flags s4.
               apply_measurement s3 tv tt ti e = (Inr (mv, mt, mi, flags), s4) \<and>
               mv ! 5 = quantize_voltage
                          (tv ! 5 * voltage_gain_errors s ! 5 + voltage_offsets_mv s ! 5
                             + (0 + voltage_noise_mv s * env_voltage_z e ! 5)) \<and>
               (bit flags 5 \<longleftrightarrow> mv ! 5 = 0)))"
proof -
  have s1: "s1 = s\<lparr>open_wire_mask := open_wire_mask s OR push_bit 5 1\<rparr>"
    by (simp only: s1_def inject_open_wire snd_conv)
  have s3: "s3 = s2\<lparr>open_wire_mask := open_wire_mask s2 AND NOT (push_bit 5 1)\<rparr>"
    by (simp only: s3_def clear_open_wire snd_conv)
  have p1: "fault_schedule s1 = []" "bit (open_wire_mask s1) 5" "same_voltage_setup s s1"
    using assms(4) bit_5_set [of "open_wire_mask s"]
    by (simp_all add: s1 same_voltage_setup_def del: push_bit_of_1)
  have rep: "(\<forall>r \<in> set (fst (apply_measurements s1 inputs)).
            \<exists>mv mt mi flags. r = Inr (mv, mt, mi, flags) \<and> mv ! 5 = 0 \<and> bit flags 5) \<and>
         fault_schedule s2 = [] \<and> same_voltage_setup s1 s2"
    unfolding s2_def using p1(1,2) by (rule open_wire_repeat)
  have p3: "fault_schedule s3 = []" "\<not> bit (open_wire_mask s3) 5" "same_voltage_setup s s3"
    using rep p1(3) bit_5_cleared [of "open_wire_mask s2"]
    by (simp_all add: s3 same_voltage_setup_def del: push_bit_of_1)
  have after: "\<exists>mv mt mi flags s4.
               apply_measurement s3 tv tt ti e = (Inr (mv, mt, mi, flags), s4) \<and>
               mv ! 5 = quantize_voltage
                          (tv ! 5 * voltage_gain_errors s ! 5 + voltage_offsets_mv s ! 5
                             + (0 + voltage_noise_mv s * env_voltage_z e ! 5)) \<and>
               (bit flags 5 \<longleftrightarrow> mv ! 5 = 0)"
    if ns: "\<not> bit (stuck_adc_mask s) 5"
  proof (rule measurement_channel_5 [of s3 tv tt ti e])
    show "fault_schedule s3 = []" by (rule p3)
    show "\<not> (bit (stuck_adc_mask s3) 5 \<and> \<not> bit (open_wire_mask s3) 5)"
      using ns p3(3) by (simp add: same_voltage_setup_def)
  next
    fix mv mt mi flags t'
    assume "apply_measurement s3 tv tt ti e = (Inr (mv, mt, mi, flags), t')"
      and "mv ! 5 = (if bit (open_wire_mask s3) 5 then 0
               else quantize_voltage
                      (tv ! 5 * voltage_gain_errors s3 ! 5 + voltage_offsets_mv s3 ! 5
                         + (0 + voltage_noise_mv s3 * env_voltage_z e ! 5)))"
      and "bit flags 5 \<longleftrightarrow> bit (open_wire_mask s3) 5 \<or> mv ! 5 = 0"
    then show ?thesis
      using p3(2,3) by (simp add: same_voltage_setup_def)
  qed
  have i: "fst (inject_fault s (Enum OPEN_WIRE) (Some (push_bit 5 1)) None now) = Inr ()"
    by (simp only: inject_open_wire fst_conv)
  have c: "fst (clear_fault s2 (Enum OPEN_WIRE) (Some (push_bit 5 1))) = Inr ()"
    by (simp only: clear_open_wire fst_conv)
  show ?thesis
    using i c rep after by blast
qed

theorem open_wire_round_trip_witness:
  "(\<exists>mv mt mi flags.
      fst (apply_measurement
             (snd (inject_fault ideal_afe (Enum OPEN_WIRE) (Some (push_bit 5 1)) None 0))
             (replicate 16 3200) (replicate 16 25) 50000 quiet_env)
        = Inr (mv, mt, mi, flags) \<and> mv ! 5 = 0 \<and> bit flags 5) \<and>
   (\<exists>mv mt mi flags s4.
      apply_measurement
        (snd (clear_fault
                (snd (apply_measurements
                        (snd (inject_fault ideal_afe (Enum OPEN_WIRE) (Some (push_bit 5 1)) None 0))
                        [(replicate 16 3200, replicate 16 25, 50000, quiet_env)]))
                (Enum OPEN_WIRE) (Some (push_bit 5 1))))
        (replicate 16 3200) (replicate 16 25) 50000 quiet_env
        = (Inr (mv, mt, mi, flags), s4) \<and> mv ! 5 = 3200 \<and> \<not> bit flags 5)"
proof -
  let ?s1 = "snd (inject_fault ideal_afe (Enum OPEN_WIRE) (Some (push_bit 5 1)) None 0)"
  let ?x = "(replicate 16 3200, replicate 16 25, 50000, quiet_env)"
  let ?s3 = "snd (clear_fault (snd (apply_measurements ?s1 [?x]))
                    (Enum OPEN_WIRE) (Some (push_bit 5 1)))"
  have h: "fault_schedule ideal_afe = []" "\<not> bit (stuck_adc_mask ideal_afe) 5"
    by (simp_all add: ideal_afe_fields)
  note t = open_wire_round_trip
      [where s = ideal_afe and now = 0 and inputs = "[?x]"
         and tv = "replicate 16 3200" and tt = "replicate 16 25" and ti = 50000
         and e = quiet_env, OF h(1)]
  have z: "env_voltage_z quiet_env ! 5 = 0" by (simp add: quiet_env_def)
  have "\<forall>r \<in> set (fst (apply_measurements ?s1 [?x])).
          \<exists>mv mt mi flags. r = Inr (mv, mt, mi, flags) \<and> mv ! 5 = 0 \<and> bit flags 5"
    using t by blast
  then have a: "\<exists>mv mt mi flags.
      fst (apply_measurement ?s1 (replicate 16 3200) (replicate 16 25) 50000 quiet_env)
        = Inr (mv, mt, mi, flags) \<and> mv ! 5 = 0 \<and> bit flags 5"
    by (simp add: split_beta)
  have "\<exists>mv mt mi flags s4.
          apply_measurement ?s3 (replicate 16 3200) (replicate 16 25) 50000 quiet_env
            = (Inr (mv, mt, mi, flags), s4) \<and>
          mv ! 5 = quantize_voltage
                     (replicate 16 3200 ! 5 * voltage_gain_errors ideal_afe ! 5
                        + voltage_offsets_mv ideal_afe ! 5
                        + (0 + voltage_noise_mv ideal_afe * env_voltage_z quiet_env ! 5)) \<and>
          (bit flags 5 \<longleftrightarrow> mv ! 5 = 0)"
    using t h(2) by blast
  then obtain mv mt mi flags s4 where
    am: "apply_measurement ?s3 (replicate 16 3200) (replicate 16 25) 50000 quiet_env
            = (Inr (mv, mt, mi, flags), s4)"
    and v: "mv ! 5 = quantize_voltage
                     (replicate 16 3200 ! 5 * voltage_gain_errors ideal_afe ! 5
                        + voltage_offsets_mv ideal_afe ! 5
                        + (0 + voltage_noise_mv ideal_afe * env_voltage_z quiet_env ! 5))"
    and f: "bit flags 5 \<longleftrightarrow> mv ! 5 = 0"
    by blast
  have v': "mv ! 5 = 3200"
    using v by (simp add: ideal_afe_fields z quantize_voltage_3200)
  then have "\<not> bit flags 5" using f by simp
  then have b: "\<exists>mv mt mi flags s4.
      apply_measurement ?s3 (replicate 16 3200) (replicate 16 25) 50000 quiet_env
        = (Inr (mv, mt, mi, flags), s4) \<and> mv ! 5 = 3200 \<and> \<not> bit flags 5"
    using am v' by blast
  show ?thesis using a b by (rule conjI)
qed

text \<open>
  Claim C3 as stated fails: after the fault on channel 5 is injected and cleared, a true
  voltage of 0 mV on that channel is measured as 0.0 and the status word has bit 5 set,
  although no open-wire fault is active.
\<close>

theorem cleared_open_wire_counterexample:
  "returned
     (apply_measurement
        (snd (clear_fault
                (snd (inject_fault ideal_afe (Enum OPEN_WIRE) (Some (push_bit 5 1)) None 0))
                (Enum OPEN_WIRE) (Some (push_bit 5 1))))
        ((replicate 16 3200)[5 := 0]) (replicate 16 25) 50000 quiet_env) \<noteq> None \<and>
   bit (returned_flags
          (apply_measurement
             (snd (clear_fault
                     (snd (inject_fault ideal_afe (Enum OPEN_WIRE) (Some (push_bit 5 1)) None 0))
                     (Enum OPEN_WIRE) (Some (push_bit 5 1))))
             ((replicate 16 3200)[5 := 0]) (replicate 16 25) 50000 quiet_env))
       5"
proof -
  define s where
    "s = snd (clear_fault
                (snd (inject_fault ideal_afe (Enum OPEN_WIRE) (Some (push_bit 5 1)) None 0))
                (Enum OPEN_WIRE) (Some (push_bit 5 1)))"
  have s: "s = ideal_afe\<lparr>open_wire_mask := (0 OR push_bit 5 1) AND NOT (push_bit 5 1)\<rparr>"
    by (simp add: s_def inject_open_wire clear_open_wire ideal_afe_fields del: push_bit_of_1)
  have sf: "fault_schedule s = []" "\<not> bit (stuck_adc_mask s) 5"
    "voltage_gain_errors s = replicate 16 1" "voltage_offsets_mv s = replicate 16 0"
    "voltage_noise_mv s = 0"
    by (simp_all add: s ideal_afe_fields)
  have "returned (apply_measurement s ((replicate 16 3200)[5 := 0]) (replicate 16 25) 50000 quiet_env)
          \<noteq> None \<and>
        bit (returned_flags
               (apply_measurement s ((replicate 16 3200)[5 := 0]) (replicate 16 25) 50000 quiet_env))
            5"
  proof (rule measurement_channel_5
           [of s "(replicate 16 3200)[5 := 0]" "replicate 16 25" 50000 quiet_env])
    show "fault_schedule s = []" by (rule sf)
    show "\<not> (bit (stuck_adc_mask s) 5 \<and> \<not> bit (open_wire_mask s) 5)"
      using sf(2) by simp
  next
    fix mv mt mi flags t'
    assume am: "apply_measurement s ((replicate 16 3200)[5 := 0]) (replicate 16 25) 50000 quiet_env
                  = (Inr (mv, mt, mi, flags), t')"
      and v: "mv ! 5 = (if bit (open_wire_mask s) 5 then 0
               else quantize_voltage
                      ((replicate 16 3200)[5 := 0] ! 5 * voltage_gain_errors s ! 5
                         + voltage_offsets_mv s ! 5
                         + (0 + voltage_noise_mv s * env_voltage_z quiet_env ! 5)))"
      and b: "bit flags 5 \<longleftrightarrow> bit (open_wire_mask s) 5 \<or> mv ! 5 = 0"
    have "mv ! 5 = 0"
      using v by (simp add: sf quantize_voltage_0)
    then have "bit flags 5" using b by simp
    then show ?thesis
      using returned_parts [OF am] by simp
  qed
  then show ?thesis unfolding s_def .
qed

end
